theory Spec2Isabelle
  imports Main "HOL-Library.Sublist"
begin

section \<open>Values shared by the object model\<close>

text \<open>
  An Arrow instant is modelled as the number of microseconds since the epoch (UTC), a
  \<^verbatim>\<open>datetime.timedelta\<close> as a number of microseconds. Python's own bounds on both
  (year 1 to 9999, 999999999 days) are not modelled.
\<close>

type_synonym instant = int
type_synonym timedelta = int

definition second_us :: int where
  "second_us = 1000000"

definition minute_us :: int where
  "minute_us = 60 * second_us"

definition day_us :: int where
  "day_us = 86400 * second_us"

datatype error =
    ValueError
  | TypeError
  | AttributeError
  | UnboundLocalError
  | NameError
  | IndexError
  | NotImplementedError
  | ParserError

text \<open>
  A mutator either finishes or raises. A raise leaves the object in the state the
  assignments before the \<^verbatim>\<open>raise\<close> produced, so both outcomes carry the object.
\<close>

datatype 'a outcome = Done 'a | Raised error 'a

fun state_of :: "'a outcome \<Rightarrow> 'a" where
  "state_of (Done s) = s"
| "state_of (Raised e s) = s"

text \<open>
  The values a caller hands to an ``Arrow-compatible'' parameter: \<^verbatim>\<open>None\<close>, an integer,
  a string or an Arrow instant.
\<close>

datatype pyval = PyNone | PyInt int | PyStr string | PyArrow instant

fun truthy :: "pyval \<Rightarrow> bool" where
  "truthy PyNone = False"
| "truthy (PyInt n) = (n \<noteq> 0)"
| "truthy (PyStr s) = (s \<noteq> [])"
| "truthy (PyArrow a) = True"

text \<open>
  Modelled from the spec: \<^verbatim>\<open>utils.get_arrow\<close> is not among the source files. The spec
  has one conversion function for date-like inputs that fails with a parse error on
  anything it cannot read; an absent value stays absent and an instant is returned as it
  is. What \<^verbatim>\<open>arrow.get\<close> makes of an integer or a string is the parameter \<open>ag\<close>.
\<close>

fun get_arrow :: "(pyval \<Rightarrow> error + instant) \<Rightarrow> pyval \<Rightarrow> error + instant option" where
  "get_arrow ag PyNone = Inr None"
| "get_arrow ag (PyArrow a) = Inr (Some a)"
| "get_arrow ag v = (case ag v of Inl e \<Rightarrow> Inl e | Inr a \<Rightarrow> Inr (Some a))"

text \<open>
  The argument of the \<^verbatim>\<open>duration\<close> setter: \<^verbatim>\<open>None\<close>, a timedelta, a dict of
  timedelta keywords, or a number (of days).
\<close>

datatype td_key = Weeks | Days | Hours | Minutes | Seconds | Milliseconds | Microseconds

fun td_unit :: "td_key \<Rightarrow> int" where
  "td_unit Weeks = 7 * day_us"
| "td_unit Days = day_us"
| "td_unit Hours = 3600 * second_us"
| "td_unit Minutes = minute_us"
| "td_unit Seconds = second_us"
| "td_unit Milliseconds = 1000"
| "td_unit Microseconds = 1"

definition td_keys :: "td_key list" where
  "td_keys = [Weeks, Days, Hours, Minutes, Seconds, Milliseconds, Microseconds]"

datatype duration_arg =
    Dur_none
  | Dur_timedelta timedelta
  | Dur_dict "td_key \<Rightarrow> int option"
  | Dur_days int

text \<open>\<^verbatim>\<open>timedelta(**value)\<close>: the sum of the keywords given.\<close>

definition timedelta_kwargs :: "(td_key \<Rightarrow> int option) \<Rightarrow> timedelta" where
  "timedelta_kwargs d =
     sum_list (map (\<lambda>k. case d k of None \<Rightarrow> 0 | Some n \<Rightarrow> n * td_unit k) td_keys)"

text \<open>Truth value of the raw argument (an empty dict, a zero timedelta and 0 are false).\<close>

fun truthy_duration_arg :: "duration_arg \<Rightarrow> bool" where
  "truthy_duration_arg Dur_none = False"
| "truthy_duration_arg (Dur_timedelta d) = (d \<noteq> 0)"
| "truthy_duration_arg (Dur_dict d) = (\<exists>k \<in> set td_keys. d k \<noteq> None)"
| "truthy_duration_arg (Dur_days n) = (n \<noteq> 0)"

text \<open>Truth value of a stored timedelta: \<^verbatim>\<open>None\<close> and \<^verbatim>\<open>timedelta(0)\<close> are false.\<close>

fun truthy_td :: "timedelta option \<Rightarrow> bool" where
  "truthy_td None = False"
| "truthy_td (Some d) = (d \<noteq> 0)"

subsection \<open>Content lines and containers\<close>

datatype child =
    Line string "(string \<times> string list) list" string
  | Block string "child list"

datatype container = Container string "child list"

section \<open>Event (event.py)\<close>

text \<open>
  The fields \<^verbatim>\<open>_duration\<close>, \<^verbatim>\<open>_end_time\<close>, \<^verbatim>\<open>_begin\<close>, \<^verbatim>\<open>_begin_precision\<close> of the
  class are the record fields \<open>ev_duration\<close>, \<open>ev_end_time\<close>, \<open>ev_begin\<close>,
  \<open>ev_begin_precision\<close> (an Isabelle name cannot start with an underscore).
\<close>

datatype precision = Second | Minute | Day

fun precision_unit :: "precision \<Rightarrow> int" where
  "precision_unit Second = second_us"
| "precision_unit Minute = minute_us"
| "precision_unit Day = day_us"

record event =
  ev_duration :: "timedelta option"
  ev_end_time :: "instant option"
  ev_begin :: "instant option"
  ev_begin_precision :: "precision option"
  ev_uid :: string
  ev_description :: "string option"
  ev_created :: "instant option"
  ev_location :: "string option"
  ev_unused :: container
  ev_name :: "string option"

definition Event_has_end :: "event \<Rightarrow> bool" where
  "Event_has_end e = (ev_end_time e \<noteq> None \<or> truthy_td (ev_duration e))"

definition Event_begin :: "event \<Rightarrow> instant option" where
  "Event_begin e = ev_begin e"

text \<open>
  The begin setter. The assigned value is compared with the stored end time only; a
  stored duration takes no part.
\<close>

definition Event_set_begin ::
  "(pyval \<Rightarrow> error + instant) \<Rightarrow> event \<Rightarrow> pyval \<Rightarrow> event outcome" where
  "Event_set_begin ag e v =
     (case get_arrow ag v of
        Inl err \<Rightarrow> Raised err e
      | Inr val \<Rightarrow>
          (case (val, ev_end_time e) of
             (Some b, Some t) \<Rightarrow>
               if b > t then Raised ValueError e
               else Done (e\<lparr>ev_begin := val, ev_begin_precision := Some Second\<rparr>)
           | _ \<Rightarrow> Done (e\<lparr>ev_begin := val, ev_begin_precision := Some Second\<rparr>)))"

text \<open>
  The end getter. \<^verbatim>\<open>self.begin + self._duration\<close> with no begin adds \<^verbatim>\<open>None\<close> to a
  timedelta, and \<^verbatim>\<open>self._begin_precision + 's'\<close> with no precision adds \<^verbatim>\<open>None\<close> to a
  string: both raise TypeError.
\<close>

definition Event_end :: "event \<Rightarrow> error + instant option" where
  "Event_end e =
     (if truthy_td (ev_duration e) then
        (case (ev_begin e, ev_duration e) of
           (Some b, Some d) \<Rightarrow> Inr (Some (b + d))
         | _ \<Rightarrow> Inl TypeError)
      else if ev_end_time e \<noteq> None then Inr (ev_end_time e)
      else (case ev_begin e of
              Some b \<Rightarrow>
                (case ev_begin_precision e of
                   Some p \<Rightarrow> Inr (Some (b + precision_unit p))
                 | None \<Rightarrow> Inl TypeError)
            | None \<Rightarrow> Inr None))"

text \<open>
  The end setter. \<^verbatim>\<open>value < self._begin\<close> with no begin compares an Arrow with
  \<^verbatim>\<open>None\<close>: Arrow's comparison with anything that is not an Arrow or a datetime
  returns False, so the end is stored.
\<close>

definition Event_set_end ::
  "(pyval \<Rightarrow> error + instant) \<Rightarrow> event \<Rightarrow> pyval \<Rightarrow> event outcome" where
  "Event_set_end ag e v =
     (case get_arrow ag v of
        Inl err \<Rightarrow> Raised err e
      | Inr None \<Rightarrow> Done (e\<lparr>ev_end_time := None\<rparr>)
      | Inr (Some t) \<Rightarrow>
          (case ev_begin e of
             None \<Rightarrow> Done (e\<lparr>ev_end_time := Some t, ev_duration := None\<rparr>)
           | Some b \<Rightarrow>
               if t < b then Raised ValueError e
               else Done (e\<lparr>ev_end_time := Some t, ev_duration := None\<rparr>)))"

text \<open>
  The duration getter; \<^verbatim>\<open>self.end - self.begin\<close> with no begin subtracts \<^verbatim>\<open>None\<close>
  from an Arrow, whose \<^verbatim>\<open>__sub__\<close> raises NotImplementedError.
\<close>

definition Event_duration :: "event \<Rightarrow> error + timedelta option" where
  "Event_duration e =
     (if truthy_td (ev_duration e) then Inr (ev_duration e)
      else (case Event_end e of
              Inl err \<Rightarrow> Inl err
            | Inr None \<Rightarrow> Inr None
            | Inr (Some t) \<Rightarrow>
                (case Event_begin e of
                   None \<Rightarrow> Inl NotImplementedError
                 | Some b \<Rightarrow> Inr (Some (t - b)))))"

fun to_timedelta :: "duration_arg \<Rightarrow> timedelta option" where
  "to_timedelta Dur_none = None"
| "to_timedelta (Dur_timedelta d) = Some d"
| "to_timedelta (Dur_dict d) = Some (timedelta_kwargs d)"
| "to_timedelta (Dur_days n) = Some (n * day_us)"

definition Event_set_duration :: "event \<Rightarrow> duration_arg \<Rightarrow> event outcome" where
  "Event_set_duration e v =
     (let val = to_timedelta v;
          e1 = (if truthy_td val then e\<lparr>ev_end_time := None\<rparr> else e)
      in Done (e1\<lparr>ev_duration := val\<rparr>))"

definition Event_all_day :: "event \<Rightarrow> bool" where
  "Event_all_day e = (ev_begin_precision e = Some Day \<and> \<not> Event_has_end e)"

text \<open>\<^verbatim>\<open>Arrow.floor('day')\<close>: the start of the instant's day.\<close>

definition floor_day :: "instant \<Rightarrow> instant" where
  "floor_day t = t - t mod day_us"

text \<open>
  \<^verbatim>\<open>make_all_day\<close> assigns the precision first; with no begin the next line calls
  \<^verbatim>\<open>floor\<close> on \<^verbatim>\<open>None\<close> and raises AttributeError with the precision already changed.
\<close>

definition Event_make_all_day :: "event \<Rightarrow> event outcome" where
  "Event_make_all_day e =
     (let e1 = e\<lparr>ev_begin_precision := Some Day\<rparr>
      in case ev_begin e1 of
           None \<Rightarrow> Raised AttributeError e1
         | Some b \<Rightarrow>
             Done (e1\<lparr>ev_begin := Some (floor_day b), ev_duration := None,
                       ev_end_time := None\<rparr>))"

text \<open>
  The constructor. \<open>uid_gen\<close> is the identifier the collaborator \<^verbatim>\<open>uid_gen()\<close> returns.
  A constructor that raises produces no object.
\<close>

definition Event_init ::
  "(pyval \<Rightarrow> error + instant) \<Rightarrow> string \<Rightarrow> string option \<Rightarrow> pyval \<Rightarrow> pyval \<Rightarrow>
   duration_arg \<Rightarrow> string option \<Rightarrow> string option \<Rightarrow> pyval \<Rightarrow> string option \<Rightarrow>
   error + event" where
  "Event_init ag uid_gen name begin end duration uid description created location =
     (case get_arrow ag created of
        Inl err \<Rightarrow> Inl err
      | Inr cr \<Rightarrow>
          (let e0 = \<lparr>ev_duration = None, ev_end_time = None, ev_begin = None,
                     ev_begin_precision = None,
                     ev_uid = (case uid of None \<Rightarrow> uid_gen
                               | Some u \<Rightarrow> if u = [] then uid_gen else u),
                     ev_description = description, ev_created = cr,
                     ev_location = location, ev_unused = Container ''VEVENT'' [],
                     ev_name = name\<rparr>
           in case Event_set_begin ag e0 begin of
                Raised err _ \<Rightarrow> Inl err
              | Done e1 \<Rightarrow>
                  if truthy_duration_arg duration \<and> truthy end then Inl ValueError
                  else if truthy end then
                    (case Event_set_end ag e1 end of
                       Raised err _ \<Rightarrow> Inl err
                     | Done e2 \<Rightarrow> Inr e2)
                  else if truthy_duration_arg duration then
                    (case Event_set_duration e1 duration of
                       Raised err _ \<Rightarrow> Inl err
                     | Done e2 \<Rightarrow> Inr e2)
                  else Inr e1))"

section \<open>States an Event can reach\<close>

text \<open>
  The states reachable from the constructor through the begin, end and duration setters
  and \<^verbatim>\<open>make_all_day\<close>. A call that raises leaves the object in the state
  \<open>state_of\<close> gives. The predicate \<open>P\<close> restricts the durations that are assigned.
\<close>

inductive reach ::
  "(duration_arg \<Rightarrow> bool) \<Rightarrow> (pyval \<Rightarrow> error + instant) \<Rightarrow> event \<Rightarrow> bool"
  for P :: "duration_arg \<Rightarrow> bool" and ag :: "pyval \<Rightarrow> error + instant" where
  reach_init:
    "Event_init ag g name begin end duration uid description created location = Inr e \<Longrightarrow>
     P duration \<Longrightarrow> reach P ag e"
| reach_set_begin: "reach P ag e \<Longrightarrow> reach P ag (state_of (Event_set_begin ag e v))"
| reach_set_end: "reach P ag e \<Longrightarrow> reach P ag (state_of (Event_set_end ag e v))"
| reach_set_duration:
    "reach P ag e \<Longrightarrow> P d \<Longrightarrow> reach P ag (state_of (Event_set_duration e d))"
| reach_make_all_day: "reach P ag e \<Longrightarrow> reach P ag (state_of (Event_make_all_day e))"

definition any_duration :: "duration_arg \<Rightarrow> bool" where
  "any_duration d = True"

definition nonneg_duration :: "duration_arg \<Rightarrow> bool" where
  "nonneg_duration d = (case to_timedelta d of None \<Rightarrow> True | Some x \<Rightarrow> 0 \<le> x)"

text \<open>An \<^verbatim>\<open>arrow.get\<close> that reads nothing, for the concrete examples.\<close>

definition no_parse :: "pyval \<Rightarrow> error + instant" where
  "no_parse v = Inl ParserError"

section \<open>Properties of Event\<close>

text \<open>The four facts that hold of every reachable state (the last when no negative
  duration was assigned).\<close>

definition excl :: "event \<Rightarrow> bool" where
  "excl e = (ev_end_time e = None \<or> \<not> truthy_td (ev_duration e))"

definition ordered :: "event \<Rightarrow> bool" where
  "ordered e =
     (case (ev_begin e, ev_end_time e) of (Some b, Some t) \<Rightarrow> b \<le> t | _ \<Rightarrow> True)"

definition has_precision :: "event \<Rightarrow> bool" where
  "has_precision e = (ev_begin_precision e \<noteq> None)"

definition nonneg_stored :: "event \<Rightarrow> bool" where
  "nonneg_stored e = (case ev_duration e of None \<Rightarrow> True | Some d \<Rightarrow> 0 \<le> d)"

lemma set_begin_excl: "excl e \<Longrightarrow> excl (state_of (Event_set_begin ag e v))"
  by (auto simp: excl_def Event_set_begin_def split: sum.splits option.splits)

lemma set_end_excl: "excl e \<Longrightarrow> excl (state_of (Event_set_end ag e v))"
  by (auto simp: excl_def Event_set_end_def split: sum.splits option.splits)

lemma set_duration_excl: "excl e \<Longrightarrow> excl (state_of (Event_set_duration e d))"
  by (auto simp: excl_def Event_set_duration_def Let_def)

lemma make_all_day_excl: "excl e \<Longrightarrow> excl (state_of (Event_make_all_day e))"
  by (auto simp: excl_def Event_make_all_day_def Let_def split: option.splits)

lemma set_begin_ordered: "ordered e \<Longrightarrow> ordered (state_of (Event_set_begin ag e v))"
  by (auto simp: ordered_def Event_set_begin_def split: sum.splits option.splits)

lemma set_end_ordered: "ordered e \<Longrightarrow> ordered (state_of (Event_set_end ag e v))"
  by (auto simp: ordered_def Event_set_end_def split: sum.splits option.splits)

lemma set_duration_ordered: "ordered e \<Longrightarrow> ordered (state_of (Event_set_duration e d))"
  by (auto simp: ordered_def Event_set_duration_def Let_def split: option.splits)

lemma make_all_day_ordered: "ordered e \<Longrightarrow> ordered (state_of (Event_make_all_day e))"
  by (auto simp: ordered_def Event_make_all_day_def Let_def split: option.splits)

lemma set_begin_precision:
  "has_precision e \<Longrightarrow> has_precision (state_of (Event_set_begin ag e v))"
  by (auto simp: has_precision_def Event_set_begin_def split: sum.splits option.splits)

lemma set_end_precision:
  "has_precision e \<Longrightarrow> has_precision (state_of (Event_set_end ag e v))"
  by (auto simp: has_precision_def Event_set_end_def split: sum.splits option.splits)

lemma set_duration_precision:
  "has_precision e \<Longrightarrow> has_precision (state_of (Event_set_duration e d))"
  by (auto simp: has_precision_def Event_set_duration_def Let_def)

lemma make_all_day_precision:
  "has_precision (state_of (Event_make_all_day e))"
  by (auto simp: has_precision_def Event_make_all_day_def Let_def split: option.splits)

lemma set_begin_nonneg:
  "nonneg_stored e \<Longrightarrow> nonneg_stored (state_of (Event_set_begin ag e v))"
  by (auto simp: nonneg_stored_def Event_set_begin_def split: sum.splits option.splits)

lemma set_end_nonneg:
  "nonneg_stored e \<Longrightarrow> nonneg_stored (state_of (Event_set_end ag e v))"
  by (auto simp: nonneg_stored_def Event_set_end_def split: sum.splits option.splits)

lemma set_duration_nonneg:
  "nonneg_duration d \<Longrightarrow> nonneg_stored (state_of (Event_set_duration e d))"
  by (auto simp: nonneg_stored_def nonneg_duration_def Event_set_duration_def Let_def
      split: option.splits)

lemma make_all_day_nonneg:
  "nonneg_stored e \<Longrightarrow> nonneg_stored (state_of (Event_make_all_day e))"
  by (auto simp: nonneg_stored_def Event_make_all_day_def Let_def split: option.splits)

text \<open>The constructor, as the sequence of setter calls it makes on the blank object.\<close>

definition blank_event ::
  "string \<Rightarrow> string option \<Rightarrow> string option \<Rightarrow> string option \<Rightarrow> instant option \<Rightarrow>
   string option \<Rightarrow> event" where
  "blank_event uid_gen name uid description cr location =
     \<lparr>ev_duration = None, ev_end_time = None, ev_begin = None, ev_begin_precision = None,
      ev_uid = (case uid of None \<Rightarrow> uid_gen | Some u \<Rightarrow> if u = [] then uid_gen else u),
      ev_description = description, ev_created = cr, ev_location = location,
      ev_unused = Container ''VEVENT'' [], ev_name = name\<rparr>"

lemma Event_init_steps:
  assumes "Event_init ag g name begin end duration uid description created location = Inr e"
  shows "\<exists>cr e1. get_arrow ag created = Inr cr \<and>
           Event_set_begin ag (blank_event g name uid description cr location) begin = Done e1 \<and>
           (e = e1 \<or> e = state_of (Event_set_end ag e1 end) \<or>
            e = state_of (Event_set_duration e1 duration))"
  using assms
  by (auto simp: Event_init_def blank_event_def Let_def
      split: sum.splits outcome.splits if_splits)

lemma blank_event_facts:
  "excl (blank_event g name uid description cr location)"
  "ordered (blank_event g name uid description cr location)"
  "nonneg_stored (blank_event g name uid description cr location)"
  by (simp_all add: blank_event_def excl_def ordered_def nonneg_stored_def)

lemma Event_init_excl:
  assumes "Event_init ag g name begin end duration uid description created location = Inr e"
  shows "excl e"
proof -
  from Event_init_steps[OF assms] obtain cr e1 where
    e1: "Event_set_begin ag (blank_event g name uid description cr location) begin = Done e1"
    and e: "e = e1 \<or> e = state_of (Event_set_end ag e1 end) \<or>
            e = state_of (Event_set_duration e1 duration)"
    by blast
  have "excl e1"
    using set_begin_excl[OF blank_event_facts(1)] e1 by (metis state_of.simps(1))
  then show ?thesis
    using e set_end_excl set_duration_excl by blast
qed

lemma Event_init_ordered:
  assumes "Event_init ag g name begin end duration uid description created location = Inr e"
  shows "ordered e"
proof -
  from Event_init_steps[OF assms] obtain cr e1 where
    e1: "Event_set_begin ag (blank_event g name uid description cr location) begin = Done e1"
    and e: "e = e1 \<or> e = state_of (Event_set_end ag e1 end) \<or>
            e = state_of (Event_set_duration e1 duration)"
    by blast
  have "ordered e1"
    using set_begin_ordered[OF blank_event_facts(2)] e1 by (metis state_of.simps(1))
  then show ?thesis
    using e set_end_ordered set_duration_ordered by blast
qed

lemma Event_init_precision:
  assumes "Event_init ag g name begin end duration uid description created location = Inr e"
  shows "has_precision e"
proof -
  from Event_init_steps[OF assms] obtain cr e1 where
    e1: "Event_set_begin ag (blank_event g name uid description cr location) begin = Done e1"
    and e: "e = e1 \<or> e = state_of (Event_set_end ag e1 end) \<or>
            e = state_of (Event_set_duration e1 duration)"
    by blast
  have "has_precision e1"
    using e1
    by (auto simp: has_precision_def Event_set_begin_def
        split: sum.splits option.splits if_splits)
  then show ?thesis
    using e set_end_precision set_duration_precision by blast
qed

lemma Event_init_nonneg:
  assumes "Event_init ag g name begin end duration uid description created location = Inr e"
    and "nonneg_duration duration"
  shows "nonneg_stored e"
proof -
  from Event_init_steps[OF assms(1)] obtain cr e1 where
    e1: "Event_set_begin ag (blank_event g name uid description cr location) begin = Done e1"
    and e: "e = e1 \<or> e = state_of (Event_set_end ag e1 end) \<or>
            e = state_of (Event_set_duration e1 duration)"
    by blast
  have "nonneg_stored e1"
    using set_begin_nonneg[OF blank_event_facts(3)] e1 by (metis state_of.simps(1))
  then show ?thesis
    using e set_end_nonneg set_duration_nonneg[OF assms(2)] by blast
qed

lemma reach_excl: "reach P ag e \<Longrightarrow> excl e"
  by (induction rule: reach.induct)
    (auto intro: Event_init_excl set_begin_excl set_end_excl set_duration_excl
      make_all_day_excl)

lemma reach_ordered: "reach P ag e \<Longrightarrow> ordered e"
  by (induction rule: reach.induct)
    (auto intro: Event_init_ordered set_begin_ordered set_end_ordered set_duration_ordered
      make_all_day_ordered)

lemma reach_precision: "reach P ag e \<Longrightarrow> has_precision e"
  by (induction rule: reach.induct)
    (auto intro: Event_init_precision set_begin_precision set_end_precision
      set_duration_precision make_all_day_precision)

lemma reach_nonneg: "reach nonneg_duration ag e \<Longrightarrow> nonneg_stored e"
  by (induction rule: reach.induct)
    (auto intro: Event_init_nonneg set_begin_nonneg set_end_nonneg set_duration_nonneg
      make_all_day_nonneg)

lemma precision_unit_pos: "0 < precision_unit p"
  by (cases p) (simp_all add: second_us_def minute_us_def day_us_def)

subsection \<open>The default end\<close>

text \<open>2024-01-01T10:00:00 UTC.\<close>

definition new_year_10h :: instant where
  "new_year_10h = 1704103200 * second_us"

text \<open>
  C8. An Event with a begin and neither a stored end time nor a stored duration has as
  its end the begin advanced by one unit of the recorded precision. The constructor,
  given a begin and neither end nor duration, records the precision \<^verbatim>\<open>second\<close>, so
  the end is one second after the begin and the event is not all-day; in particular for
  the begin 2024-01-01T10:00:00.
\<close>

theorem Event_end_default:
  "(ev_begin e = Some b \<and> ev_begin_precision e = Some p \<and> ev_end_time e = None \<and>
    ev_duration e = None \<longrightarrow> Event_end e = Inr (Some (b + precision_unit p))) \<and>
   (get_arrow ag created = Inr cr \<longrightarrow>
    (\<exists>e'. Event_init ag g name (PyArrow b) PyNone Dur_none uid description created location
            = Inr e' \<and>
          ev_begin e' = Some b \<and> ev_begin_precision e' = Some Second \<and>
          ev_end_time e' = None \<and> ev_duration e' = None \<and>
          Event_end e' = Inr (Some (b + second_us)) \<and> \<not> Event_all_day e')) \<and>
   (get_arrow ag created = Inr cr \<longrightarrow>
    (\<exists>e'. Event_init ag g name (PyArrow new_year_10h) PyNone Dur_none uid description
            created location = Inr e' \<and>
          Event_end e' = Inr (Some (new_year_10h + second_us)) \<and> \<not> Event_all_day e'))"
  by (auto simp: Event_end_def Event_init_def Event_set_begin_def Event_all_day_def Let_def)

theorem Event_end_default_witness:
  "Event_end \<lparr>ev_duration = None, ev_end_time = None, ev_begin = Some 5,
      ev_begin_precision = Some Day, ev_uid = ''u'', ev_description = None,
      ev_created = None, ev_location = None, ev_unused = Container ''VEVENT'' [],
      ev_name = None\<rparr> = Inr (Some (5 + 86400000000)) \<and>
   get_arrow no_parse PyNone = Inr None \<and>
   (\<exists>e'. Event_init no_parse ''g'' None (PyArrow (1704103200000000)) PyNone Dur_none None None
            PyNone None = Inr e' \<and>
          Event_end e' = Inr (Some 1704103201000000) \<and> \<not> Event_all_day e')"
  using Event_end_default[of "\<lparr>ev_duration = None, ev_end_time = None, ev_begin = Some 5,
      ev_begin_precision = Some Day, ev_uid = ''u'', ev_description = None,
      ev_created = None, ev_location = None, ev_unused = Container ''VEVENT'' [],
      ev_name = None\<rparr>" 5 Day no_parse PyNone None "''g''" None None None None]
  by (simp add: new_year_10h_def second_us_def day_us_def)

subsection \<open>End and duration exclude each other\<close>

text \<open>The Event the constructor builds from a begin alone (with the uid \<open>''u''\<close>).\<close>

definition ev_at :: "instant \<Rightarrow> event" where
  "ev_at b = \<lparr>ev_duration = None, ev_end_time = None, ev_begin = Some b,
      ev_begin_precision = Some Second, ev_uid = ''u'', ev_description = None,
      ev_created = None, ev_location = None, ev_unused = Container ''VEVENT'' [],
      ev_name = None\<rparr>"

lemma ev_at_init:
  "Event_init no_parse ''u'' None (PyArrow b) PyNone Dur_none None None PyNone None = Inr (ev_at b)"
  by (simp add: Event_init_def Event_set_begin_def ev_at_def Let_def)


text \<open>
  C1, as stated, fails. After the end is set to 10 on an Event beginning at 0 the
  duration property reads 10, not absent; after a duration of 7 is set the end property
  reads 7, not absent; and setting the duration to \<^verbatim>\<open>timedelta(0)\<close> after an end
  leaves both an end time and a duration stored.
\<close>

theorem end_duration_exclusive_counterexample:
  "Event_init no_parse ''u'' None (PyArrow 0) PyNone Dur_none None None PyNone None
     = Inr (ev_at 0) \<and>
   Event_set_end no_parse (ev_at 0) (PyArrow 10) = Done ((ev_at 0)\<lparr>ev_end_time := Some 10\<rparr>) \<and>
   Event_duration ((ev_at 0)\<lparr>ev_end_time := Some 10\<rparr>) = Inr (Some 10) \<and>
   Event_set_duration (ev_at 0) (Dur_timedelta 7) = Done ((ev_at 0)\<lparr>ev_duration := Some 7\<rparr>) \<and>
   Event_end ((ev_at 0)\<lparr>ev_duration := Some 7\<rparr>) = Inr (Some 7) \<and>
   Event_set_duration ((ev_at 0)\<lparr>ev_end_time := Some 10\<rparr>) (Dur_timedelta 0)
     = Done ((ev_at 0)\<lparr>ev_end_time := Some 10, ev_duration := Some 0\<rparr>)"
  by (simp add: Event_init_def Event_set_begin_def Event_set_end_def Event_duration_def
      Event_set_duration_def Event_end_def Event_begin_def ev_at_def Let_def)


text \<open>
  C1, amended. After a successful assignment of a non-null end the end is stored and the
  stored duration is absent; the duration property then reads end minus begin when the
  Event has a begin, and raises when it has none. After the assignment of a non-zero
  duration the stored end time is absent (the end property reads begin plus duration);
  and no reachable state holds both a stored end time and a non-zero stored duration.
\<close>

theorem end_duration_exclusive:
  "(v \<noteq> PyNone \<and> Event_set_end ag e v = Done e' \<longrightarrow>
      ev_duration e' = None \<and>
      (\<exists>t. ev_end_time e' = Some t \<and>
           (case ev_begin e' of
              Some b \<Rightarrow> Event_duration e' = Inr (Some (t - b))
            | None \<Rightarrow> Event_duration e' = Inl NotImplementedError))) \<and>
   (truthy_td (to_timedelta d) \<and> Event_set_duration e d = Done e' \<longrightarrow>
      ev_end_time e' = None \<and> ev_duration e' = to_timedelta d \<and>
      (\<forall>b. ev_begin e' = Some b \<longrightarrow>
         (\<exists>x. to_timedelta d = Some x \<and> Event_end e' = Inr (Some (b + x))))) \<and>
   (reach any_duration ag e \<longrightarrow> \<not> (ev_end_time e \<noteq> None \<and> truthy_td (ev_duration e)))"
proof (intro conjI impI)
  assume a: "v \<noteq> PyNone \<and> Event_set_end ag e v = Done e'"
  then show "ev_duration e' = None"
    by (cases v) (auto simp: Event_set_end_def split: sum.splits option.splits if_splits)
  from a show "\<exists>t. ev_end_time e' = Some t \<and>
           (case ev_begin e' of
              Some b \<Rightarrow> Event_duration e' = Inr (Some (t - b))
            | None \<Rightarrow> Event_duration e' = Inl NotImplementedError)"
    by (cases v)
      (auto simp: Event_set_end_def Event_duration_def Event_end_def Event_begin_def
        split: sum.splits option.splits if_splits)
next
  assume a: "truthy_td (to_timedelta d) \<and> Event_set_duration e d = Done e'"
  then show "ev_end_time e' = None" "ev_duration e' = to_timedelta d"
    by (auto simp: Event_set_duration_def Let_def)
  from a show "\<forall>b. ev_begin e' = Some b \<longrightarrow>
         (\<exists>x. to_timedelta d = Some x \<and> Event_end e' = Inr (Some (b + x)))"
    by (cases "to_timedelta d") (auto simp: Event_set_duration_def Event_end_def Let_def)
next
  assume "reach any_duration ag e"
  then have "excl e" by (rule reach_excl)
  then show "\<not> (ev_end_time e \<noteq> None \<and> truthy_td (ev_duration e))"
    by (auto simp: excl_def)
qed

theorem end_duration_exclusive_witness:
  "Event_set_end no_parse (ev_at 0) (PyArrow 10) = Done ((ev_at 0)\<lparr>ev_end_time := Some 10\<rparr>) \<and>
   ev_duration ((ev_at 0)\<lparr>ev_end_time := Some 10\<rparr>) = None \<and>
   Event_duration ((ev_at 0)\<lparr>ev_end_time := Some 10\<rparr>) = Inr (Some 10) \<and>
   Event_set_end no_parse ((ev_at 0)\<lparr>ev_begin := None\<rparr>) (PyArrow 10)
     = Done ((ev_at 0)\<lparr>ev_begin := None, ev_end_time := Some 10\<rparr>) \<and>
   Event_duration ((ev_at 0)\<lparr>ev_begin := None, ev_end_time := Some 10\<rparr>)
     = Inl NotImplementedError \<and>
   Event_set_duration ((ev_at 0)\<lparr>ev_end_time := Some 10\<rparr>) (Dur_timedelta 7)
     = Done ((ev_at 0)\<lparr>ev_duration := Some 7\<rparr>) \<and>
   ev_end_time ((ev_at 0)\<lparr>ev_duration := Some 7\<rparr>) = None \<and>
   Event_end ((ev_at 0)\<lparr>ev_duration := Some 7\<rparr>) = Inr (Some 7) \<and>
   reach any_duration no_parse ((ev_at 0)\<lparr>ev_end_time := Some 10\<rparr>) \<and>
   \<not> (ev_end_time ((ev_at 0)\<lparr>ev_end_time := Some 10\<rparr>) \<noteq> None \<and>
      truthy_td (ev_duration ((ev_at 0)\<lparr>ev_end_time := Some 10\<rparr>)))"
proof -
  have r0: "reach any_duration no_parse (ev_at 0)"
    by (rule reach_init[OF ev_at_init]) (simp add: any_duration_def)
  have s: "Event_set_end no_parse (ev_at 0) (PyArrow 10)
             = Done ((ev_at 0)\<lparr>ev_end_time := Some 10\<rparr>)"
    by (simp add: Event_set_end_def ev_at_def)
  have r1: "reach any_duration no_parse ((ev_at 0)\<lparr>ev_end_time := Some 10\<rparr>)"
    using reach_set_end[OF r0, of "PyArrow 10"] s by simp
  have d: "Event_set_duration ((ev_at 0)\<lparr>ev_end_time := Some 10\<rparr>) (Dur_timedelta 7)
             = Done ((ev_at 0)\<lparr>ev_duration := Some 7\<rparr>)"
    by (simp add: Event_set_duration_def ev_at_def Let_def)
  show ?thesis
    using r1 s d
      end_duration_exclusive[of "PyArrow 10" no_parse "ev_at 0"
        "(ev_at 0)\<lparr>ev_end_time := Some 10\<rparr>" "Dur_timedelta 7"]
      end_duration_exclusive[of PyNone no_parse "(ev_at 0)\<lparr>ev_end_time := Some 10\<rparr>"
        "(ev_at 0)\<lparr>ev_duration := Some 7\<rparr>" "Dur_timedelta 7"]
      end_duration_exclusive[of "PyArrow 10" no_parse "(ev_at 0)\<lparr>ev_begin := None\<rparr>"
        "(ev_at 0)\<lparr>ev_begin := None, ev_end_time := Some 10\<rparr>" "Dur_timedelta 7"]
    by (simp add: ev_at_def Event_end_def Event_set_end_def)
qed

subsection \<open>Begin never after the end\<close>

text \<open>
  C4, as stated, fails: the duration setter checks nothing, and a negative duration puts
  the end before the begin.
\<close>

theorem negative_duration_counterexample:
  "Event_init no_parse ''u'' None (PyArrow 10) PyNone (Dur_timedelta (- 5)) None None PyNone None
     = Inr ((ev_at 10)\<lparr>ev_duration := Some (- 5)\<rparr>) \<and>
   Event_begin ((ev_at 10)\<lparr>ev_duration := Some (- 5)\<rparr>) = Some 10 \<and>
   Event_end ((ev_at 10)\<lparr>ev_duration := Some (- 5)\<rparr>) = Inr (Some 5)"
  by (simp add: Event_init_def Event_set_begin_def Event_set_duration_def Event_end_def
      Event_begin_def ev_at_def Let_def)


lemma effective_end_ordered:
  assumes "excl e" "ordered e" "has_precision e" "nonneg_stored e" "ev_begin e = Some b"
  shows "\<exists>t. Event_end e = Inr (Some t) \<and> b \<le> t"
proof (cases "truthy_td (ev_duration e)")
  case True
  then obtain d where d: "ev_duration e = Some d" "d \<noteq> 0"
    by (cases "ev_duration e") auto
  with assms(4) have "0 \<le> d" by (simp add: nonneg_stored_def)
  with d assms(5) show ?thesis by (simp add: Event_end_def)
next
  case False
  show ?thesis
  proof (cases "ev_end_time e")
    case None
    from assms(3) obtain p where p: "ev_begin_precision e = Some p"
      by (auto simp: has_precision_def)
    have "0 < precision_unit p" by (rule precision_unit_pos)
    with False None p assms(5) show ?thesis by (simp add: Event_end_def)
  next
    case (Some t)
    with assms(2,5) have "b \<le> t" by (simp add: ordered_def)
    with False Some show ?thesis by (simp add: Event_end_def)
  qed
qed

text \<open>
  C4, amended. In every state reachable through the constructor, the three setters and
  \<^verbatim>\<open>make_all_day\<close> with no negative duration assigned, an Event with a begin has an
  end and the begin is not after it. Setting the begin above a stored end time, or the
  end below the begin, raises ValueError; a setter that raises leaves the Event as it
  was.
\<close>

theorem begin_before_end:
  "(reach nonneg_duration ag e \<and> Event_begin e = Some b \<longrightarrow>
      (\<exists>t. Event_end e = Inr (Some t) \<and> b \<le> t)) \<and>
   (ev_end_time e = Some t \<and> get_arrow ag v = Inr (Some x) \<and> t < x \<longrightarrow>
      Event_set_begin ag e v = Raised ValueError e) \<and>
   (ev_begin e = Some b \<and> get_arrow ag v = Inr (Some x) \<and> x < b \<longrightarrow>
      Event_set_end ag e v = Raised ValueError e) \<and>
   (Event_set_begin ag e v = Raised err e' \<longrightarrow> e' = e) \<and>
   (Event_set_end ag e v = Raised err e' \<longrightarrow> e' = e)"
proof (intro conjI impI)
  assume a: "reach nonneg_duration ag e \<and> Event_begin e = Some b"
  then have "excl e" "ordered e" "has_precision e" "nonneg_stored e"
    by (auto intro: reach_excl reach_ordered reach_precision reach_nonneg)
  moreover from a have "ev_begin e = Some b" by (simp add: Event_begin_def)
  ultimately show "\<exists>t. Event_end e = Inr (Some t) \<and> b \<le> t"
    by (rule effective_end_ordered)
next
  assume "ev_end_time e = Some t \<and> get_arrow ag v = Inr (Some x) \<and> t < x"
  then show "Event_set_begin ag e v = Raised ValueError e"
    by (simp add: Event_set_begin_def)
next
  assume "ev_begin e = Some b \<and> get_arrow ag v = Inr (Some x) \<and> x < b"
  then show "Event_set_end ag e v = Raised ValueError e"
    by (simp add: Event_set_end_def)
next
  assume "Event_set_begin ag e v = Raised err e'"
  then show "e' = e"
    by (auto simp: Event_set_begin_def split: sum.splits option.splits if_splits)
next
  assume "Event_set_end ag e v = Raised err e'"
  then show "e' = e"
    by (auto simp: Event_set_end_def split: sum.splits option.splits if_splits)
qed

theorem begin_before_end_witness:
  "reach nonneg_duration no_parse ((ev_at 3)\<lparr>ev_end_time := Some 10\<rparr>) \<and>
   Event_begin ((ev_at 3)\<lparr>ev_end_time := Some 10\<rparr>) = Some 3 \<and>
   Event_end ((ev_at 3)\<lparr>ev_end_time := Some 10\<rparr>) = Inr (Some 10) \<and>
   Event_set_begin no_parse ((ev_at 3)\<lparr>ev_end_time := Some 10\<rparr>) (PyArrow 11)
     = Raised ValueError ((ev_at 3)\<lparr>ev_end_time := Some 10\<rparr>) \<and>
   Event_set_end no_parse ((ev_at 3)\<lparr>ev_end_time := Some 10\<rparr>) (PyArrow 2)
     = Raised ValueError ((ev_at 3)\<lparr>ev_end_time := Some 10\<rparr>)"
proof -
  have r0: "reach nonneg_duration no_parse (ev_at 3)"
    by (rule reach_init[OF ev_at_init]) (simp add: nonneg_duration_def)
  have s: "Event_set_end no_parse (ev_at 3) (PyArrow 10)
             = Done ((ev_at 3)\<lparr>ev_end_time := Some 10\<rparr>)"
    by (simp add: Event_set_end_def ev_at_def)
  have r1: "reach nonneg_duration no_parse ((ev_at 3)\<lparr>ev_end_time := Some 10\<rparr>)"
    using reach_set_end[OF r0, of "PyArrow 10"] s by simp
  show ?thesis
    using r1
      begin_before_end[of no_parse "(ev_at 3)\<lparr>ev_end_time := Some 10\<rparr>" 3 10 "PyArrow 11" 11
        ValueError "(ev_at 3)\<lparr>ev_end_time := Some 10\<rparr>"]
      begin_before_end[of no_parse "(ev_at 3)\<lparr>ev_end_time := Some 10\<rparr>" 3 10 "PyArrow 2" 2
        ValueError "(ev_at 3)\<lparr>ev_end_time := Some 10\<rparr>"]
    by (simp add: ev_at_def Event_begin_def Event_end_def)
qed

section \<open>Todo (todo.py)\<close>

subsection \<open>The store of mutable sub-objects\<close>

text \<open>
  A Todo holds two mutable objects by reference: the list given as \<^verbatim>\<open>categories\<close> and
  the Container \<^verbatim>\<open>_unused\<close>. They live in a store, so that two Todos that hold the same
  list see each other's changes to it. Strings, numbers, instants and timedeltas are
  immutable and are held by value.
\<close>

type_synonym addr = nat

datatype cell = ListCell "string list" | ContainerCell container

record store =
  cells :: "addr \<Rightarrow> cell option"
  next_addr :: addr

definition alloc :: "store \<Rightarrow> cell \<Rightarrow> addr \<times> store" where
  "alloc h c =
     (next_addr h, h\<lparr>cells := (cells h)(next_addr h \<mapsto> c), next_addr := Suc (next_addr h)\<rparr>)"

text \<open>An attribute of an instance: Python raises AttributeError on one never assigned.\<close>

datatype 'a attr = Missing | Attr 'a

fun getattr :: "'a attr \<Rightarrow> error + 'a" where
  "getattr Missing = Inl AttributeError"
| "getattr (Attr v) = Inr v"

text \<open>
  \<open>td_begin\<close>, \<open>td_end_time\<close> and \<open>td_begin_precision\<close> are the attributes \<^verbatim>\<open>_begin\<close>,
  \<^verbatim>\<open>_end_time\<close> and \<^verbatim>\<open>_begin_precision\<close>, which the begin property reads and writes and
  the constructor never assigns. \<open>td_end\<close> and \<open>td_duration_attr\<close> are the plain instance
  attributes \<^verbatim>\<open>end\<close> and \<^verbatim>\<open>duration\<close>: the class defines no property of either name,
  so an assignment to one creates it. \<open>td_due\<close> (\<^verbatim>\<open>_due\<close>) and \<open>td_percent\<close>
  (\<^verbatim>\<open>_percent\<close>) hold Python values as they were stored.
\<close>

record todo =
  td_duration :: "timedelta option"
  td_due :: pyval
  td_uid :: string
  td_description :: "string option"
  td_priority :: "int option"
  td_categories :: "addr option"
  td_created :: "instant option"
  td_percent :: pyval
  td_completed :: "instant option"
  td_location :: "string option"
  td_unused :: addr
  td_name :: "string option"
  td_begin :: "instant option attr"
  td_end_time :: "instant option attr"
  td_begin_precision :: "precision attr"
  td_end :: "instant option attr"
  td_duration_attr :: "duration_arg attr"

fun of_arrow :: "instant option \<Rightarrow> pyval" where
  "of_arrow None = PyNone"
| "of_arrow (Some a) = PyArrow a"

definition Todo_has_due :: "todo \<Rightarrow> bool" where
  "Todo_has_due t = truthy (td_due t)"

definition Todo_due :: "todo \<Rightarrow> pyval" where
  "Todo_due t = (if truthy (td_due t) then td_due t else PyNone)"

definition Todo_set_due ::
  "(pyval \<Rightarrow> error + instant) \<Rightarrow> todo \<Rightarrow> pyval \<Rightarrow> todo outcome" where
  "Todo_set_due ag t v =
     (case get_arrow ag v of
        Inl err \<Rightarrow> Raised err t
      | Inr val \<Rightarrow> Done (t\<lparr>td_due := of_arrow val\<rparr>))"

definition Todo_percent :: "todo \<Rightarrow> pyval" where
  "Todo_percent t = (if truthy (td_percent t) then td_percent t else PyNone)"

text \<open>
  The percent setter: \<^verbatim>\<open>value = arrow.now() if not value else get_arrow(value)\<close>.
  \<open>now\<close> is what \<^verbatim>\<open>arrow.now()\<close> returns.
\<close>

definition Todo_set_percent ::
  "(pyval \<Rightarrow> error + instant) \<Rightarrow> instant \<Rightarrow> todo \<Rightarrow> pyval \<Rightarrow> todo outcome" where
  "Todo_set_percent ag now t v =
     (if \<not> truthy v then Done (t\<lparr>td_percent := PyArrow now\<rparr>)
      else (case get_arrow ag v of
              Inl err \<Rightarrow> Raised err t
            | Inr val \<Rightarrow> Done (t\<lparr>td_percent := of_arrow val\<rparr>)))"

definition Todo_begin :: "todo \<Rightarrow> error + instant option" where
  "Todo_begin t = getattr (td_begin t)"

text \<open>
  The begin setter reads \<^verbatim>\<open>self._end_time\<close> only when the value is not \<^verbatim>\<open>None\<close>
  (\<^verbatim>\<open>value and self._end_time and ...\<close>).
\<close>

definition Todo_set_begin ::
  "(pyval \<Rightarrow> error + instant) \<Rightarrow> todo \<Rightarrow> pyval \<Rightarrow> todo outcome" where
  "Todo_set_begin ag t v =
     (case get_arrow ag v of
        Inl err \<Rightarrow> Raised err t
      | Inr None \<Rightarrow> Done (t\<lparr>td_begin := Attr None, td_begin_precision := Attr Second\<rparr>)
      | Inr (Some b) \<Rightarrow>
          (case td_end_time t of
             Missing \<Rightarrow> Raised AttributeError t
           | Attr None \<Rightarrow>
               Done (t\<lparr>td_begin := Attr (Some b), td_begin_precision := Attr Second\<rparr>)
           | Attr (Some e) \<Rightarrow>
               if b > e then Raised ValueError t
               else Done (t\<lparr>td_begin := Attr (Some b), td_begin_precision := Attr Second\<rparr>)))"

text \<open>The instance attribute \<^verbatim>\<open>end\<close>, which the collection queries read.\<close>

definition Todo_end :: "todo \<Rightarrow> error + instant option" where
  "Todo_end t = getattr (td_end t)"

text \<open>
  \<^verbatim>\<open>==\<close> on the values of the model. An Arrow equals only an Arrow (its \<^verbatim>\<open>__eq__\<close>
  returns False for anything that is not an Arrow or a datetime).
\<close>

fun py_eq :: "pyval \<Rightarrow> pyval \<Rightarrow> bool" where
  "py_eq PyNone PyNone = True"
| "py_eq (PyInt a) (PyInt b) = (a = b)"
| "py_eq (PyStr a) (PyStr b) = (a = b)"
| "py_eq (PyArrow a) (PyArrow b) = (a = b)"
| "py_eq _ _ = False"

definition Todo_is_complete :: "todo \<Rightarrow> bool" where
  "Todo_is_complete t = py_eq (Todo_percent t) (PyInt 100)"

text \<open>
  \<^verbatim>\<open>self._due < arrow.now()\<close>. When \<^verbatim>\<open>_due\<close> is not an Arrow (\<^verbatim>\<open>None\<close>, a number, a
  string) Python leaves the comparison to the Arrow on the right, and an Arrow's
  comparison with anything that is not an Arrow or a datetime returns False.
\<close>

definition Todo_is_overdue :: "instant \<Rightarrow> todo \<Rightarrow> bool" where
  "Todo_is_overdue now t = (case td_due t of PyArrow d \<Rightarrow> d < now | _ \<Rightarrow> False)"

text \<open>
  The constructor. A constructor that raises produces no object. The last branch assigns
  \<^verbatim>\<open>self.duration\<close>, a plain attribute, and leaves \<^verbatim>\<open>_duration\<close> as it is.
\<close>

definition Todo_init ::
  "(pyval \<Rightarrow> error + instant) \<Rightarrow> string \<Rightarrow> instant \<Rightarrow> string option \<Rightarrow> pyval \<Rightarrow>
   duration_arg \<Rightarrow> string option \<Rightarrow> string option \<Rightarrow> int option \<Rightarrow> addr option \<Rightarrow> pyval \<Rightarrow>
   pyval \<Rightarrow> pyval \<Rightarrow> string option \<Rightarrow> store \<Rightarrow> error + todo \<times> store" where
  "Todo_init ag uid_gen now name due duration uid description priority categories created
     percent completed location h =
     (case get_arrow ag created of
        Inl err \<Rightarrow> Inl err
      | Inr cr \<Rightarrow>
          (let t0 = \<lparr>td_duration = None, td_due = PyNone,
                     td_uid = (case uid of None \<Rightarrow> uid_gen
                               | Some u \<Rightarrow> if u = [] then uid_gen else u),
                     td_description = description, td_priority = priority,
                     td_categories = categories, td_created = cr, td_percent = PyNone,
                     td_completed = None, td_location = None, td_unused = 0,
                     td_name = None, td_begin = Missing, td_end_time = Missing,
                     td_begin_precision = Missing, td_end = Missing,
                     td_duration_attr = Missing\<rparr>
           in case Todo_set_percent ag now t0 percent of
                Raised err _ \<Rightarrow> Inl err
              | Done t1 \<Rightarrow>
                  (case get_arrow ag completed of
                     Inl err \<Rightarrow> Inl err
                   | Inr co \<Rightarrow>
                       (let (u, h1) = alloc h (ContainerCell (Container ''VTODO'' []));
                            t2 = t1\<lparr>td_completed := co, td_location := location,
                                    td_unused := u, td_name := name\<rparr>
                        in if truthy_duration_arg duration \<and> truthy due then Inl ValueError
                           else if truthy due then Inr (t2\<lparr>td_due := due\<rparr>, h1)
                           else if truthy_duration_arg duration then
                             Inr (t2\<lparr>td_duration_attr := Attr duration\<rparr>, h1)
                           else Inr (t2, h1)))))"

text \<open>Two todos are equal when their uids are.\<close>

definition Todo_eq :: "todo \<Rightarrow> todo \<Rightarrow> bool" where
  "Todo_eq t other = (td_uid t = td_uid other)"

text \<open>
  \<^verbatim>\<open>__hash__\<close>: the character codes of the uid, three digits each, read as one number.
  \<^verbatim>\<open>int('')\<close> raises ValueError, so a Todo with an empty uid cannot be hashed.
\<close>

definition Todo_hash :: "todo \<Rightarrow> error + int" where
  "Todo_hash t =
     (if td_uid t = [] then Inl ValueError
      else Inr (foldl (\<lambda>acc c. acc * 1000 + int (of_char c)) 0 (td_uid t)))"

text \<open>
  Modelled from the spec: \<^verbatim>\<open>Container.clone\<close> (parse.py) is not among the source files.
  The spec has the clone of an \<^verbatim>\<open>_unused\<close> container be an independent copy: a new
  object with the same content.

  \<^verbatim>\<open>Todo.clone\<close> is \<^verbatim>\<open>copy.copy(self)\<close>, which copies the attribute table as it is
  (references included), followed by the replacement of \<^verbatim>\<open>_unused\<close> by its clone.
\<close>

definition Container_clone :: "store \<Rightarrow> addr \<Rightarrow> error + addr \<times> store" where
  "Container_clone h a =
     (case cells h a of
        Some (ContainerCell c) \<Rightarrow> Inr (alloc h (ContainerCell c))
      | _ \<Rightarrow> Inl AttributeError)"

definition Todo_clone :: "store \<Rightarrow> todo \<Rightarrow> error + todo \<times> store" where
  "Todo_clone h t =
     (let clone = t
      in case Container_clone h (td_unused clone) of
           Inl err \<Rightarrow> Inl err
         | Inr (u, h1) \<Rightarrow> Inr (clone\<lparr>td_unused := u\<rparr>, h1))"

text \<open>Reading \<^verbatim>\<open>todo.categories\<close>, and \<^verbatim>\<open>todo.categories.append(c)\<close>.\<close>

definition read_categories :: "store \<Rightarrow> todo \<Rightarrow> string list option" where
  "read_categories h t =
     (case td_categories t of
        None \<Rightarrow> None
      | Some a \<Rightarrow> (case cells h a of Some (ListCell xs) \<Rightarrow> Some xs | _ \<Rightarrow> None))"

definition categories_append :: "store \<Rightarrow> todo \<Rightarrow> string \<Rightarrow> error + store" where
  "categories_append h t c =
     (case td_categories t of
        None \<Rightarrow> Inl AttributeError
      | Some a \<Rightarrow>
          (case cells h a of
             Some (ListCell xs) \<Rightarrow> Inr (h\<lparr>cells := (cells h)(a \<mapsto> ListCell (xs @ [c]))\<rparr>)
           | _ \<Rightarrow> Inl AttributeError))"

section \<open>Properties of Todo\<close>

text \<open>What \<^verbatim>\<open>arrow.get\<close> makes of a number: the instant that many seconds after the epoch.\<close>

definition timestamp_get :: "pyval \<Rightarrow> error + instant" where
  "timestamp_get v = (case v of PyInt n \<Rightarrow> Inr (n * second_us) | _ \<Rightarrow> Inl ParserError)"

definition empty_store :: store where
  "empty_store = \<lparr>cells = (\<lambda>a. None), next_addr = 0\<rparr>"

definition todo_100 :: todo where
  "todo_100 = \<lparr>td_duration = None, td_due = PyNone, td_uid = ''g'', td_description = None,
     td_priority = None, td_categories = None, td_created = None,
     td_percent = PyArrow 100000000, td_completed = None, td_location = None,
     td_unused = 0, td_name = None, td_begin = Missing, td_end_time = Missing,
     td_begin_precision = Missing, td_end = Missing, td_duration_attr = Missing\<rparr>"

lemma todo_100_init:
  "Todo_init timestamp_get ''g'' 7 None PyNone Dur_none None None None None PyNone
     (PyInt 100) PyNone None empty_store
   = Inr (todo_100, \<lparr>cells = (\<lambda>a. None)(0 \<mapsto> ContainerCell (Container ''VTODO'' [])),
                     next_addr = Suc 0\<rparr>)"
  by (simp add: Todo_init_def Todo_set_percent_def timestamp_get_def empty_store_def
      alloc_def todo_100_def second_us_def Let_def)


subsection \<open>Completion\<close>

lemma set_percent_arrow:
  "Todo_set_percent ag now t v = Done t' \<Longrightarrow> \<exists>a. td_percent t' = PyArrow a"
  by (cases v)
    (auto simp: Todo_set_percent_def split: sum.splits if_splits)

lemma Todo_init_percent:
  assumes "Todo_init ag g now name due duration uid description priority categories created
     percent completed location h = Inr (t, h')"
  shows "\<exists>a. td_percent t = PyArrow a"
proof -
  from assms obtain t0 t1 where s: "Todo_set_percent ag now t0 percent = Done t1"
    and p: "td_percent t = td_percent t1"
    by (auto simp: Todo_init_def Let_def alloc_def
        split: sum.splits outcome.splits if_splits prod.splits)
  from set_percent_arrow[OF s] p show ?thesis by simp
qed

text \<open>
  C6. \<^verbatim>\<open>is_complete\<close> compares the percent property with the integer 100, and the
  claim has percent be the integer assigned. The code stores no integer: the percent
  setter puts \<^verbatim>\<open>arrow.now()\<close> in place of a false value and \<^verbatim>\<open>get_arrow(value)\<close>, an
  Arrow instant, in place of any other. So after the setter, and after the constructor
  (which calls it), the stored percent is an instant and \<^verbatim>\<open>is_complete\<close> is false,
  also when 100 was assigned.
\<close>

theorem percent_is_an_instant:
  "(Todo_set_percent ag now t v = Done t' \<longrightarrow>
      (\<exists>a. td_percent t' = PyArrow a) \<and> \<not> Todo_is_complete t') \<and>
   (Todo_init ag g now name due duration uid description priority categories created
      percent completed location h = Inr (t', h') \<longrightarrow>
      (\<exists>a. td_percent t' = PyArrow a) \<and> \<not> Todo_is_complete t')"
proof (intro conjI impI)
  assume "Todo_set_percent ag now t v = Done t'"
  then obtain a where a: "td_percent t' = PyArrow a"
    using set_percent_arrow by blast
  then show "\<exists>a. td_percent t' = PyArrow a" by blast
  from a show "\<not> Todo_is_complete t'"
    by (simp add: Todo_is_complete_def Todo_percent_def)
next
  assume "Todo_init ag g now name due duration uid description priority categories created
      percent completed location h = Inr (t', h')"
  then obtain a where a: "td_percent t' = PyArrow a"
    using Todo_init_percent by blast
  then show "\<exists>a. td_percent t' = PyArrow a" by blast
  from a show "\<not> Todo_is_complete t'"
    by (simp add: Todo_is_complete_def Todo_percent_def)
qed

theorem percent_is_an_instant_witness:
  "Todo_init timestamp_get ''g'' 7 None PyNone Dur_none None None None None PyNone
     (PyInt 100) PyNone None empty_store
   = Inr (todo_100, \<lparr>cells = (\<lambda>a. None)(0 \<mapsto> ContainerCell (Container ''VTODO'' [])),
                     next_addr = Suc 0\<rparr>) \<and>
   Todo_percent todo_100 = PyArrow 100000000 \<and> \<not> Todo_is_complete todo_100 \<and>
   Todo_set_percent timestamp_get 7 todo_100 (PyInt 100) = Done todo_100 \<and>
   Todo_set_percent timestamp_get 7 todo_100 PyNone = Done (todo_100\<lparr>td_percent := PyArrow 7\<rparr>) \<and>
   \<not> Todo_is_complete (todo_100\<lparr>td_percent := PyArrow 7\<rparr>)"
  using todo_100_init
    percent_is_an_instant[of timestamp_get 7 todo_100 PyNone "todo_100\<lparr>td_percent := PyArrow 7\<rparr>"]
    percent_is_an_instant[of timestamp_get 7 todo_100 "PyInt 100" todo_100
      "''g''" None PyNone Dur_none None None None None PyNone "PyInt 100" PyNone None
      empty_store "\<lparr>cells = (\<lambda>a. None)(0 \<mapsto> ContainerCell (Container ''VTODO'' [])),
                     next_addr = Suc 0\<rparr>"]
  by (simp add: Todo_set_percent_def timestamp_get_def todo_100_def second_us_def
      Todo_percent_def Todo_is_complete_def)


subsection \<open>Overdue\<close>

lemma Todo_init_due:
  assumes "Todo_init ag g n0 name due duration uid description priority categories created
     percent completed location h = Inr (t, h')" and "truthy due"
  shows "td_due t = due"
  using assms
  by (auto simp: Todo_init_def Todo_set_percent_def Let_def alloc_def
      split: sum.splits outcome.splits if_splits prod.splits)

text \<open>
  C7. The claim has \<^verbatim>\<open>is_overdue\<close> true whenever a due is set and precedes the current
  time. \<^verbatim>\<open>is_overdue\<close> is true exactly when \<^verbatim>\<open>_due\<close> holds an Arrow instant before
  the current time, and with no due \<^verbatim>\<open>has_due\<close> and \<^verbatim>\<open>is_overdue\<close> are both false.
  But the constructor stores its \<^verbatim>\<open>due\<close> argument as it is given (\<^verbatim>\<open>self._due = due\<close>),
  where the due setter stores \<^verbatim>\<open>get_arrow(value)\<close>: a Todo constructed with a due that
  is a number or a string has a due (\<^verbatim>\<open>has_due\<close> is true) and is never overdue,
  whatever the time. The same value assigned through the setter is overdue once its
  instant has passed.
\<close>

theorem is_overdue_misses_unconverted_due:
  "(Todo_is_overdue now t = (\<exists>d. td_due t = PyArrow d \<and> d < now)) \<and>
   (td_due t = PyNone \<longrightarrow> \<not> Todo_has_due t \<and> \<not> Todo_is_overdue now t) \<and>
   (Todo_init ag g n0 name due duration uid description priority categories created
      percent completed location h = Inr (t', h') \<and> truthy due \<and> (\<forall>d. due \<noteq> PyArrow d) \<longrightarrow>
      td_due t' = due \<and> Todo_has_due t' \<and> \<not> Todo_is_overdue now t') \<and>
   (Todo_set_due ag t due = Done t'' \<and> get_arrow ag due = Inr (Some d) \<longrightarrow>
      Todo_has_due t'' \<and> Todo_is_overdue now t'' = (d < now))"
proof (intro conjI impI)
  show "Todo_is_overdue now t = (\<exists>d. td_due t = PyArrow d \<and> d < now)"
    by (cases "td_due t") (auto simp: Todo_is_overdue_def)
next
  assume "td_due t = PyNone"
  then show "\<not> Todo_has_due t" "\<not> Todo_is_overdue now t"
    by (simp_all add: Todo_has_due_def Todo_is_overdue_def)
next
  assume a: "Todo_init ag g n0 name due duration uid description priority categories created
      percent completed location h = Inr (t', h') \<and> truthy due \<and> (\<forall>d. due \<noteq> PyArrow d)"
  then show d: "td_due t' = due"
    using Todo_init_due by blast
  from a d show "Todo_has_due t'"
    by (simp add: Todo_has_due_def)
  from a d show "\<not> Todo_is_overdue now t'"
    by (cases due) (auto simp: Todo_is_overdue_def)
next
  assume a: "Todo_set_due ag t due = Done t'' \<and> get_arrow ag due = Inr (Some d)"
  then show "Todo_has_due t''"
    by (auto simp: Todo_set_due_def Todo_has_due_def)
  from a show "Todo_is_overdue now t'' = (d < now)"
    by (auto simp: Todo_set_due_def Todo_is_overdue_def)
qed

theorem is_overdue_misses_unconverted_due_witness:
  "Todo_init timestamp_get ''g'' 7 None (PyInt 5) Dur_none None None None None PyNone
     (PyInt 100) PyNone None empty_store
   = Inr (todo_100\<lparr>td_due := PyInt 5\<rparr>,
          \<lparr>cells = (\<lambda>a. None)(0 \<mapsto> ContainerCell (Container ''VTODO'' [])),
           next_addr = Suc 0\<rparr>) \<and>
   Todo_has_due (todo_100\<lparr>td_due := PyInt 5\<rparr>) \<and>
   \<not> Todo_is_overdue 10000000 (todo_100\<lparr>td_due := PyInt 5\<rparr>) \<and>
   Todo_set_due timestamp_get todo_100 (PyInt 5) = Done (todo_100\<lparr>td_due := PyArrow 5000000\<rparr>) \<and>
   Todo_has_due (todo_100\<lparr>td_due := PyArrow 5000000\<rparr>) \<and>
   Todo_is_overdue 10000000 (todo_100\<lparr>td_due := PyArrow 5000000\<rparr>) \<and>
   td_due todo_100 = PyNone \<and> \<not> Todo_has_due todo_100 \<and> \<not> Todo_is_overdue 10000000 todo_100"
proof -
  have i: "Todo_init timestamp_get ''g'' 7 None (PyInt 5) Dur_none None None None None PyNone
     (PyInt 100) PyNone None empty_store
   = Inr (todo_100\<lparr>td_due := PyInt 5\<rparr>,
          \<lparr>cells = (\<lambda>a. None)(0 \<mapsto> ContainerCell (Container ''VTODO'' [])),
           next_addr = Suc 0\<rparr>)"
    by (simp add: Todo_init_def Todo_set_percent_def timestamp_get_def empty_store_def
        alloc_def todo_100_def second_us_def Let_def)
  have s: "Todo_set_due timestamp_get todo_100 (PyInt 5)
             = Done (todo_100\<lparr>td_due := PyArrow 5000000\<rparr>)"
    by (simp add: Todo_set_due_def timestamp_get_def second_us_def)
  have g: "get_arrow timestamp_get (PyInt 5) = Inr (Some 5000000)"
    by (simp add: timestamp_get_def second_us_def)
  have n: "td_due todo_100 = PyNone"
    by (simp add: todo_100_def)
  show ?thesis
    using i s g n
      is_overdue_misses_unconverted_due[of 10000000 todo_100 timestamp_get "''g''" 7 None
        "PyInt 5" Dur_none None None None None PyNone "PyInt 100" PyNone None empty_store
        "todo_100\<lparr>td_due := PyInt 5\<rparr>"
        "\<lparr>cells = (\<lambda>a. None)(0 \<mapsto> ContainerCell (Container ''VTODO'' [])),
          next_addr = Suc 0\<rparr>"
        "todo_100\<lparr>td_due := PyArrow 5000000\<rparr>" 5000000]
    by simp
qed

section \<open>TodoList (todolist.py)\<close>

text \<open>
  A TodoList is a Python list of Todos. Its lambdas read attributes of the items and
  compare them, and each of these can raise; a condition is therefore a function to
  \<open>error + bool\<close>, and \<^verbatim>\<open>and\<close>, \<^verbatim>\<open>or\<close> evaluate their right operand only when the
  left one does not decide.
\<close>

definition bindE :: "error + 'a \<Rightarrow> ('a \<Rightarrow> error + 'b) \<Rightarrow> error + 'b" where
  "bindE m f = (case m of Inl e \<Rightarrow> Inl e | Inr v \<Rightarrow> f v)"

type_synonym condition = "todo \<Rightarrow> error + bool"

definition andE :: "condition \<Rightarrow> condition \<Rightarrow> condition" where
  "andE c d = (\<lambda>x. bindE (c x) (\<lambda>b. if b then d x else Inr False))"

definition orE :: "condition \<Rightarrow> condition \<Rightarrow> condition" where
  "orE c d = (\<lambda>x. bindE (c x) (\<lambda>b. if b then Inr True else d x))"

text \<open>\<^verbatim>\<open>list(filter(condition, self))\<close>: the first item whose condition raises ends it.\<close>

fun filterE :: "('a \<Rightarrow> error + bool) \<Rightarrow> 'a list \<Rightarrow> error + 'a list" where
  "filterE c [] = Inr []"
| "filterE c (x # xs) =
     bindE (c x) (\<lambda>b. bindE (filterE c xs) (\<lambda>ys. Inr (if b then x # ys else ys)))"

text \<open>
  Comparisons of an attribute value with an Arrow. With \<^verbatim>\<open>None\<close> on one side the
  Arrow's comparison decides, and it returns False for anything that is not an Arrow or
  a datetime. In every comparison of this file one side is an Arrow (a bound of the
  query or the instant asked for); two \<^verbatim>\<open>None\<close>s, which Python 3 refuses to order, do
  not occur.
\<close>

fun arrow_lt :: "instant option \<Rightarrow> instant option \<Rightarrow> error + bool" where
  "arrow_lt (Some a) (Some b) = Inr (a < b)"
| "arrow_lt None None = Inl TypeError"
| "arrow_lt _ _ = Inr False"

fun arrow_le :: "instant option \<Rightarrow> instant option \<Rightarrow> error + bool" where
  "arrow_le (Some a) (Some b) = Inr (a \<le> b)"
| "arrow_le None None = Inl TypeError"
| "arrow_le _ _ = Inr False"

definition arrow_gt :: "instant option \<Rightarrow> instant option \<Rightarrow> error + bool" where
  "arrow_gt a b = arrow_lt b a"

subsection \<open>Plain indexing and slicing of the underlying list\<close>

definition list_index :: "'a list \<Rightarrow> int \<Rightarrow> error + 'a" where
  "list_index xs i =
     (let n = int (length xs); j = (if i < 0 then n + i else i)
      in if 0 \<le> j \<and> j < n then Inr (xs ! nat j) else Inl IndexError)"

fun int_or_none :: "pyval \<Rightarrow> bool" where
  "int_or_none PyNone = True"
| "int_or_none (PyInt n) = True"
| "int_or_none _ = False"

fun slice_bound :: "int \<Rightarrow> int \<Rightarrow> int \<Rightarrow> pyval \<Rightarrow> int" where
  "slice_bound len step dflt (PyInt i) =
     (let j = (if i < 0 then i + len else i)
      in if j < 0 then (if step < 0 then - 1 else 0)
         else if j \<ge> len then (if step < 0 then len - 1 else len)
         else j)"
| "slice_bound len step dflt _ = dflt"

definition list_slice :: "'a list \<Rightarrow> pyval \<Rightarrow> pyval \<Rightarrow> pyval \<Rightarrow> error + 'a list" where
  "list_slice xs start stop st =
     (let step = (case st of PyInt k \<Rightarrow> k | _ \<Rightarrow> 1); len = int (length xs)
      in if step = 0 then Inl ValueError
         else
           (let lo = slice_bound len step (if step < 0 then len - 1 else 0) start;
                hi = slice_bound len step (if step < 0 then - 1 else len) stop;
                n = (if step > 0 then (if lo < hi then (hi - lo - 1) div step + 1 else 0)
                     else (if hi < lo then (lo - hi - 1) div (- step) + 1 else 0))
            in Inr (map (\<lambda>k. xs ! nat (lo + int k * step)) [0..<nat n])))"

subsection \<open>Range queries\<close>

definition step_names :: "string list" where
  "step_names = [''begin'', ''end'', ''both'', ''any'', ''inc'']"

text \<open>An empty step is \<^verbatim>\<open>'both'\<close>; anything but one of the five names is refused.\<close>

definition check_step :: "pyval \<Rightarrow> error + string" where
  "check_step st =
     (case st of
        PyNone \<Rightarrow> Inr ''both''
      | PyStr s \<Rightarrow> if s \<in> set step_names then Inr s else Inl ValueError
      | _ \<Rightarrow> Inl ValueError)"

definition condition0 :: condition where
  "condition0 = (\<lambda>x. Inr True)"

definition condition_begin1 :: "instant \<Rightarrow> condition" where
  "condition_begin1 b = andE condition0 (\<lambda>x. bindE (Todo_begin x) (\<lambda>v. arrow_gt v (Some b)))"

definition condition_end1 :: "instant \<Rightarrow> condition" where
  "condition_end1 b = andE condition0 (\<lambda>x. bindE (Todo_end x) (\<lambda>v. arrow_gt v (Some b)))"

text \<open>
  A local variable that no branch assigned: calling it from a lambda raises NameError,
  reading it in an assignment raises UnboundLocalError.
\<close>

definition call :: "condition option \<Rightarrow> condition" where
  "call c = (case c of None \<Rightarrow> (\<lambda>x. Inl NameError) | Some f \<Rightarrow> f)"

definition condition_begin2 :: "condition option \<Rightarrow> instant \<Rightarrow> condition" where
  "condition_begin2 c1 e =
     andE (call c1) (\<lambda>x. bindE (Todo_begin x) (\<lambda>v. arrow_lt v (Some e)))"

definition condition_end2 :: "condition option \<Rightarrow> instant \<Rightarrow> condition" where
  "condition_end2 c1 e =
     andE (call c1) (\<lambda>x. bindE (Todo_end x) (\<lambda>v. arrow_lt v (Some e)))"

definition condition_inc :: "instant \<Rightarrow> instant \<Rightarrow> condition" where
  "condition_inc b e =
     andE (\<lambda>x. bindE (Todo_begin x) (\<lambda>v. arrow_lt v (Some b)))
          (\<lambda>x. bindE (Todo_end x) (\<lambda>v. arrow_lt (Some e) v))"

text \<open>\<^verbatim>\<open>condition1\<close> after the first \<^verbatim>\<open>if\<close>: with a lower bound and the step \<^verbatim>\<open>'inc'\<close>
  no branch assigns it.\<close>

definition condition1 :: "string \<Rightarrow> instant option \<Rightarrow> condition option" where
  "condition1 step begin =
     (case begin of
        Some b \<Rightarrow>
          if step = ''begin'' then Some (condition_begin1 b)
          else if step = ''end'' then Some (condition_end1 b)
          else if step = ''any'' then Some (orE (condition_begin1 b) (condition_end1 b))
          else if step = ''both'' then Some (andE (condition_begin1 b) (condition_end1 b))
          else None
      | None \<Rightarrow> Some condition0)"

text \<open>\<^verbatim>\<open>condition2\<close> after the second \<^verbatim>\<open>if\<close>; its \<^verbatim>\<open>else\<close> branch reads
  \<^verbatim>\<open>condition1\<close>.\<close>

definition condition2 ::
  "string \<Rightarrow> condition option \<Rightarrow> instant option \<Rightarrow> error + condition option" where
  "condition2 step c1 end =
     (case end of
        Some e \<Rightarrow>
          if step = ''begin'' then Inr (Some (condition_begin2 c1 e))
          else if step = ''end'' then Inr (Some (condition_end2 c1 e))
          else if step = ''any'' then
            Inr (Some (orE (condition_begin2 c1 e) (condition_end2 c1 e)))
          else if step = ''both'' then
            Inr (Some (andE (condition_begin2 c1 e) (condition_end2 c1 e)))
          else Inr None
      | None \<Rightarrow> (case c1 of None \<Rightarrow> Inl UnboundLocalError | Some c \<Rightarrow> Inr (Some c)))"

text \<open>
  The part of \<^verbatim>\<open>__getitem__\<close> for a slice that is not a classical one (from ``now we
  have a slice and it's a special one'' to the end).
\<close>

definition TodoList_range ::
  "(pyval \<Rightarrow> error + instant) \<Rightarrow> todo list \<Rightarrow> pyval \<Rightarrow> pyval \<Rightarrow> pyval \<Rightarrow> error + todo list"
  where
  "TodoList_range ag self start stop st =
     bindE (check_step st) (\<lambda>step.
     bindE (get_arrow ag start) (\<lambda>begin.
     bindE (get_arrow ag stop) (\<lambda>end.
     bindE (condition2 step (condition1 step begin) end) (\<lambda>c2.
       if step = ''inc'' then
         (case (begin, end) of
            (Some b, Some e) \<Rightarrow> filterE (condition_inc b e) self
          | _ \<Rightarrow> Inr [])
       else (case c2 of None \<Rightarrow> Inl UnboundLocalError | Some c \<Rightarrow> filterE c self)))))"

datatype subscript = Sub pyval | Slice pyval pyval pyval

datatype got = Item todo | Items "todo list"

text \<open>\<^verbatim>\<open>sl.floor('day').span('day')\<close>: the first and the last microsecond of the day.\<close>

definition day_span :: "instant \<Rightarrow> instant \<times> instant" where
  "day_span a = (floor_day a, floor_day a + day_us - 1)"

definition TodoList_getitem ::
  "(pyval \<Rightarrow> error + instant) \<Rightarrow> todo list \<Rightarrow> subscript \<Rightarrow> error + got" where
  "TodoList_getitem ag self sl =
     (case sl of
        Sub (PyInt i) \<Rightarrow> bindE (list_index self i) (\<lambda>x. Inr (Item x))
      | Sub v \<Rightarrow>
          bindE (get_arrow ag v) (\<lambda>a.
            case a of
              None \<Rightarrow> Inl AttributeError
            | Some i \<Rightarrow>
                (let (begin, end) = day_span i
                 in bindE (TodoList_range ag self (PyArrow begin) (PyArrow end) (PyStr ''both''))
                      (\<lambda>r. Inr (Items r))))
      | Slice start stop st \<Rightarrow>
          if int_or_none start \<and> int_or_none stop \<and> int_or_none st then
            bindE (list_slice self start stop st) (\<lambda>r. Inr (Items r))
          else bindE (TodoList_range ag self start stop st) (\<lambda>r. Inr (Items r)))"

definition TodoList_today ::
  "(pyval \<Rightarrow> error + instant) \<Rightarrow> instant \<Rightarrow> todo list \<Rightarrow> error + got" where
  "TodoList_today ag now self = TodoList_getitem ag self (Sub (PyArrow now))"

text \<open>\<^verbatim>\<open>todo.begin <= instant <= todo.end\<close>, the test of \<^verbatim>\<open>at\<close> and \<^verbatim>\<open>now\<close>.\<close>

definition occurs_at :: "instant \<Rightarrow> condition" where
  "occurs_at i =
     andE (\<lambda>x. bindE (Todo_begin x) (\<lambda>v. arrow_le v (Some i)))
          (\<lambda>x. bindE (Todo_end x) (\<lambda>v. arrow_le (Some i) v))"

definition TodoList_at :: "todo list \<Rightarrow> instant \<Rightarrow> error + todo list" where
  "TodoList_at self instant = filterE (occurs_at instant) self"

definition TodoList_now :: "instant \<Rightarrow> todo list \<Rightarrow> error + todo list" where
  "TodoList_now now self = filterE (occurs_at now) self"

text \<open>
  \<^verbatim>\<open>concurrent\<close>: three range queries, then \<^verbatim>\<open>list(set(a) | (set(b) & set(c)))\<close>. A set
  hashes its members and holds one Todo per uid. The order in which Python lists a set
  is not specified; the model lists the members in the order of their first occurrence.
\<close>

fun hash_all :: "todo list \<Rightarrow> error + unit" where
  "hash_all [] = Inr ()"
| "hash_all (x # xs) = bindE (Todo_hash x) (\<lambda>_. hash_all xs)"

fun first_by_uid :: "todo list \<Rightarrow> string list \<Rightarrow> todo list" where
  "first_by_uid [] seen = []"
| "first_by_uid (x # xs) seen =
     (if td_uid x \<in> set seen then first_by_uid xs seen
      else x # first_by_uid xs (td_uid x # seen))"

definition TodoList_concurrent ::
  "(pyval \<Rightarrow> error + instant) \<Rightarrow> todo list \<Rightarrow> todo \<Rightarrow> error + todo list" where
  "TodoList_concurrent ag self todo =
     bindE (Todo_begin todo) (\<lambda>b0.
     bindE (Todo_end todo) (\<lambda>e0.
     bindE (TodoList_range ag self (of_arrow b0) (of_arrow e0) (PyStr ''any'')) (\<lambda>a.
     bindE (Todo_begin todo) (\<lambda>b1.
     bindE (TodoList_range ag self PyNone (of_arrow b1) (PyStr ''begin'')) (\<lambda>b.
     bindE (Todo_end todo) (\<lambda>e1.
     bindE (TodoList_range ag self (of_arrow e1) PyNone (PyStr ''end'')) (\<lambda>c.
     bindE (hash_all a) (\<lambda>_.
     bindE (hash_all b) (\<lambda>_.
     bindE (hash_all c) (\<lambda>_.
       Inr (first_by_uid
              (a @ filter (\<lambda>x. td_uid x \<in> td_uid ` set c) b) [])))))))))))"

subsection \<open>Concatenation\<close>

text \<open>
  \<^verbatim>\<open>_remove_duplicates\<close> walks the indices from the last to the first. \<^verbatim>\<open>self[i] in
  seen\<close> hashes the item (ValueError on an empty uid) and then compares uids.
\<close>

definition delete_at :: "nat \<Rightarrow> 'a list \<Rightarrow> 'a list" where
  "delete_at i xs = take i xs @ drop (Suc i) xs"

fun remove_duplicates_loop :: "nat list \<Rightarrow> todo list \<Rightarrow> todo list \<Rightarrow> error + todo list" where
  "remove_duplicates_loop [] self seen = Inr self"
| "remove_duplicates_loop (i # is) self seen =
     bindE (list_index self (int i)) (\<lambda>x.
     bindE (Todo_hash x) (\<lambda>_.
       if \<exists>y \<in> set seen. Todo_eq y x then remove_duplicates_loop is (delete_at i self) seen
       else remove_duplicates_loop is self (x # seen)))"

definition TodoList_remove_duplicates :: "todo list \<Rightarrow> error + todo list" where
  "TodoList_remove_duplicates self =
     remove_duplicates_loop (rev [0..<length self]) self []"

definition TodoList_add :: "todo list \<Rightarrow> todo list \<Rightarrow> error + todo list" where
  "TodoList_add self other = TodoList_remove_duplicates (self @ other)"


section \<open>Properties of TodoList\<close>

subsection \<open>Concatenation keeps the last of the items with one uid\<close>

text \<open>
  What the loop leaves, said directly: an item stays when no later item has its uid.
  \<open>keep_last_unseen S\<close> also drops the items whose uid is in \<open>S\<close>.
\<close>

fun keep_last :: "todo list \<Rightarrow> todo list" where
  "keep_last [] = []"
| "keep_last (x # xs) =
     (if td_uid x \<in> td_uid ` set xs then keep_last xs else x # keep_last xs)"

fun keep_last_unseen :: "string set \<Rightarrow> todo list \<Rightarrow> todo list" where
  "keep_last_unseen S [] = []"
| "keep_last_unseen S (x # xs) =
     (if td_uid x \<in> S \<union> td_uid ` set xs then keep_last_unseen S xs
      else x # keep_last_unseen S xs)"

lemma keep_last_unseen_empty: "keep_last_unseen {} xs = keep_last xs"
  by (induction xs) auto

lemma keep_last_unseen_snoc:
  "keep_last_unseen S (ys @ [x]) =
     (if td_uid x \<in> S then keep_last_unseen S ys
      else keep_last_unseen (insert (td_uid x) S) ys @ [x])"
  by (induction ys) auto

lemma take_delete_at: "n \<le> length xs \<Longrightarrow> take n (delete_at n xs) = take n xs"
  by (simp add: delete_at_def)

lemma drop_delete_at: "n \<le> length xs \<Longrightarrow> drop n (delete_at n xs) = drop (Suc n) xs"
  by (simp add: delete_at_def)

lemma remove_duplicates_loop_eq:
  "n \<le> length self \<Longrightarrow> \<forall>x \<in> set (take n self). td_uid x \<noteq> [] \<Longrightarrow>
   remove_duplicates_loop (rev [0..<n]) self seen =
     Inr (keep_last_unseen (td_uid ` set seen) (take n self) @ drop n self)"
proof (induction n arbitrary: self seen)
  case 0
  then show ?case by simp
next
  case (Suc n)
  let ?x = "self ! n"
  from Suc.prems have n: "n < length self" by simp
  then have tk: "take (Suc n) self = take n self @ [?x]"
    by (simp add: take_Suc_conv_app_nth)
  have dr: "drop n self = ?x # drop (Suc n) self"
    using n by (simp add: Cons_nth_drop_Suc)
  have idx: "list_index self (int n) = Inr ?x"
    using n by (simp add: list_index_def)
  have uid: "td_uid ?x \<noteq> []"
    using Suc.prems(2) tk by simp
  have pre: "\<forall>x \<in> set (take n self). td_uid x \<noteq> []"
    using Suc.prems(2) tk by simp
  show ?case
  proof (cases "\<exists>y \<in> set seen. Todo_eq y ?x")
    case True
    then have mem: "td_uid ?x \<in> td_uid ` set seen"
      by (metis Todo_eq_def imageI)
    have len: "n \<le> length (delete_at n self)"
      using n by (simp add: delete_at_def)
    have pre': "\<forall>x \<in> set (take n (delete_at n self)). td_uid x \<noteq> []"
      using pre n by (simp add: take_delete_at)
    have "remove_duplicates_loop (rev [0..<Suc n]) self seen =
            remove_duplicates_loop (rev [0..<n]) (delete_at n self) seen"
      using True idx uid by (simp add: bindE_def Todo_hash_def)
    also have "\<dots> = Inr (keep_last_unseen (td_uid ` set seen) (take n (delete_at n self))
                        @ drop n (delete_at n self))"
      by (rule Suc.IH[OF len pre'])
    also have "\<dots> = Inr (keep_last_unseen (td_uid ` set seen) (take n self)
                        @ drop (Suc n) self)"
      using n by (simp add: take_delete_at drop_delete_at)
    finally show ?thesis
      using mem by (simp add: tk keep_last_unseen_snoc)
  next
    case False
    then have nmem: "td_uid ?x \<notin> td_uid ` set seen"
      by (metis Todo_eq_def imageE)
    have "remove_duplicates_loop (rev [0..<Suc n]) self seen =
            remove_duplicates_loop (rev [0..<n]) self (?x # seen)"
      using False idx uid by (simp add: bindE_def Todo_hash_def)
    also have "\<dots> = Inr (keep_last_unseen (td_uid ` set (?x # seen)) (take n self)
                        @ drop n self)"
      using n by (intro Suc.IH pre) simp
    finally show ?thesis
      using nmem by (simp add: tk keep_last_unseen_snoc dr)
  qed
qed

lemma TodoList_remove_duplicates_eq:
  "\<forall>x \<in> set self. td_uid x \<noteq> [] \<Longrightarrow> TodoList_remove_duplicates self = Inr (keep_last self)"
  using remove_duplicates_loop_eq[of "length self" self "[]"]
  by (simp add: TodoList_remove_duplicates_def keep_last_unseen_empty)

lemma keep_last_uids: "td_uid ` set (keep_last xs) = td_uid ` set xs"
  by (induction xs) auto

lemma keep_last_distinct: "distinct (map td_uid (keep_last xs))"
proof (induction xs)
  case Nil
  then show ?case by simp
next
  case (Cons x xs)
  have "td_uid x \<notin> td_uid ` set xs \<Longrightarrow> td_uid x \<notin> td_uid ` set (keep_last xs)"
    by (simp add: keep_last_uids)
  with Cons show ?case by auto
qed

lemma keep_last_subseq: "subseq (keep_last xs) xs"
  by (induction xs) auto

lemma keep_last_is_last:
  "x \<in> set (keep_last xs) \<Longrightarrow> last (filter (\<lambda>y. td_uid y = td_uid x) xs) = x"
proof (induction xs)
  case Nil
  then show ?case by simp
next
  case (Cons a xs)
  show ?case
  proof (cases "td_uid a \<in> td_uid ` set xs")
    case True
    with Cons.prems have x: "x \<in> set (keep_last xs)" by simp
    then have "td_uid x \<in> td_uid ` set xs"
      using keep_last_uids by blast
    then have ne: "filter (\<lambda>y. td_uid y = td_uid x) xs \<noteq> []"
      by (auto simp: filter_empty_conv)
    with Cons.IH[OF x] show ?thesis by simp
  next
    case False
    show ?thesis
    proof (cases "x = a")
      case True
      with False have "filter (\<lambda>y. td_uid y = td_uid x) xs = []"
        unfolding filter_empty_conv by (metis imageI)
      with True show ?thesis by simp
    next
      case xa: False
      with False Cons.prems have x: "x \<in> set (keep_last xs)" by simp
      then have "td_uid x \<in> td_uid ` set xs"
        using keep_last_uids by blast
      then have ne: "filter (\<lambda>y. td_uid y = td_uid x) xs \<noteq> []"
        by (auto simp: filter_empty_conv)
      with Cons.IH[OF x] show ?thesis by simp
    qed
  qed
qed

lemma keep_last_distinct_id: "distinct (map td_uid xs) \<Longrightarrow> keep_last xs = xs"
  by (induction xs) auto

lemma keep_last_append_covered:
  "td_uid ` set xs \<subseteq> td_uid ` set ys \<Longrightarrow> keep_last (xs @ ys) = keep_last ys"
  by (induction xs) auto

lemma keep_last_twice: "keep_last (xs @ xs) = keep_last xs"
  by (simp add: keep_last_append_covered)

text \<open>A Todo with a uid and a name, for the examples.\<close>

definition named :: "string \<Rightarrow> string \<Rightarrow> todo" where
  "named u n = todo_100\<lparr>td_uid := u, td_name := Some n\<rparr>"

text \<open>
  C9, as stated, fails: of two items with one uid the concatenation keeps the later one
  (here the one named \<open>''second''\<close>), and a list that holds a uid twice is longer than
  its concatenation with itself.
\<close>

theorem TodoList_add_keeps_first_counterexample:
  "TodoList_add [named ''u'' ''first''] [named ''u'' ''second''] = Inr [named ''u'' ''second''] \<and>
   td_name (named ''u'' ''second'') \<noteq> td_name (named ''u'' ''first'') \<and>
   TodoList_add [named ''u'' ''first'', named ''u'' ''second'']
                [named ''u'' ''first'', named ''u'' ''second''] = Inr [named ''u'' ''second''] \<and>
   length [named ''u'' ''second''] \<noteq> length [named ''u'' ''first'', named ''u'' ''second'']"
  by (simp add: TodoList_add_def TodoList_remove_duplicates_eq named_def)

text \<open>
  C9, amended. When no item has an empty uid, \<open>A + B\<close> is the items of \<open>A\<close> followed by
  those of \<open>B\<close> with every item removed that a later item shares its uid with: the uids
  of the result are distinct and are those of \<open>A\<close> and \<open>B\<close>, the result is a
  subsequence (the order is kept), and each item of it is the last one of its uid. When
  the uids of \<open>A\<close> are distinct, \<open>A + A\<close> is \<open>A\<close>.
\<close>

theorem TodoList_add_keeps_last:
  "(\<forall>x \<in> set (A @ B). td_uid x \<noteq> []) \<longrightarrow>
     TodoList_add A B = Inr (keep_last (A @ B)) \<and>
     distinct (map td_uid (keep_last (A @ B))) \<and>
     td_uid ` set (keep_last (A @ B)) = td_uid ` set (A @ B) \<and>
     subseq (keep_last (A @ B)) (A @ B) \<and>
     (\<forall>x \<in> set (keep_last (A @ B)).
        last (filter (\<lambda>y. td_uid y = td_uid x) (A @ B)) = x) \<and>
     (distinct (map td_uid A) \<longrightarrow> TodoList_add A A = Inr A)"
proof (intro impI conjI ballI)
  assume u: "\<forall>x \<in> set (A @ B). td_uid x \<noteq> []"
  then show "TodoList_add A B = Inr (keep_last (A @ B))"
    unfolding TodoList_add_def by (rule TodoList_remove_duplicates_eq)
  show "distinct (map td_uid (keep_last (A @ B)))"
    by (rule keep_last_distinct)
  show "td_uid ` set (keep_last (A @ B)) = td_uid ` set (A @ B)"
    by (rule keep_last_uids)
  show "subseq (keep_last (A @ B)) (A @ B)"
    by (rule keep_last_subseq)
  show "last (filter (\<lambda>y. td_uid y = td_uid x) (A @ B)) = x"
    if "x \<in> set (keep_last (A @ B))" for x
    using that by (rule keep_last_is_last)
  show "TodoList_add A A = Inr A" if d: "distinct (map td_uid A)"
  proof -
    from u have "\<forall>x \<in> set (A @ A). td_uid x \<noteq> []" by simp
    then have "TodoList_add A A = Inr (keep_last (A @ A))"
      unfolding TodoList_add_def by (rule TodoList_remove_duplicates_eq)
    then show ?thesis
      using d by (simp add: keep_last_twice keep_last_distinct_id)
  qed
qed

theorem TodoList_add_keeps_last_witness:
  "TodoList_add [named ''u'' ''first'', named ''v'' ''other''] [named ''u'' ''second'']
     = Inr [named ''v'' ''other'', named ''u'' ''second''] \<and>
   TodoList_add [named ''u'' ''first'', named ''v'' ''other'']
                [named ''u'' ''first'', named ''v'' ''other'']
     = Inr [named ''u'' ''first'', named ''v'' ''other'']"
  using TodoList_add_keeps_last[of "[named ''u'' ''first'', named ''v'' ''other'']"
      "[named ''u'' ''second'']"]
  by (simp add: named_def)

subsection \<open>Range queries\<close>

lemma filterE_total:
  "\<forall>x \<in> set xs. c x = Inr (p x) \<Longrightarrow> filterE c xs = Inr (filter p xs)"
  by (induction xs) (auto simp: bindE_def)

lemma filterE_first_raises:
  "xs \<noteq> [] \<Longrightarrow> c (hd xs) = Inl e \<Longrightarrow> filterE c xs = Inl e"
  by (cases xs) (auto simp: bindE_def)

text \<open>A Todo whose \<^verbatim>\<open>_begin\<close> and \<^verbatim>\<open>end\<close> attributes were assigned the two instants.\<close>

definition interval :: "string \<Rightarrow> instant \<Rightarrow> instant \<Rightarrow> todo" where
  "interval u b e = todo_100\<lparr>td_uid := u, td_begin := Attr (Some b), td_end := Attr (Some e)\<rparr>"

text \<open>The item's begin falls within \<open>[a, b)\<close>.\<close>

definition begins_within :: "instant \<Rightarrow> instant \<Rightarrow> todo \<Rightarrow> bool" where
  "begins_within a b x = (case td_begin x of Attr (Some v) \<Rightarrow> a \<le> v \<and> v < b | _ \<Rightarrow> False)"

lemma check_step_names:
  "check_step (PyStr ''begin'') = Inr ''begin''"
  "check_step (PyStr ''end'') = Inr ''end''"
  "check_step (PyStr ''both'') = Inr ''both''"
  "check_step (PyStr ''any'') = Inr ''any''"
  "check_step (PyStr ''inc'') = Inr ''inc''"
  "check_step PyNone = Inr ''both''"
  by (simp_all add: check_step_def step_names_def)

lemma range_begin_mode:
  assumes "\<forall>x \<in> set xs. \<exists>v. td_begin x = Attr (Some v) \<and> v \<noteq> a"
  shows "TodoList_range ag xs (PyArrow a) (PyArrow b) (PyStr ''begin'')
           = Inr (filter (begins_within a b) xs)"
proof -
  have c: "\<forall>x \<in> set xs.
             condition_begin2 (Some (condition_begin1 a)) b x = Inr (begins_within a b x)"
  proof
    fix x assume "x \<in> set xs"
    with assms obtain v where v: "td_begin x = Attr (Some v)" "v \<noteq> a" by blast
    then show "condition_begin2 (Some (condition_begin1 a)) b x = Inr (begins_within a b x)"
      by (auto simp: condition_begin2_def condition_begin1_def condition0_def call_def
          andE_def bindE_def Todo_begin_def arrow_gt_def begins_within_def)
  qed
  show ?thesis
    by (simp add: TodoList_range_def check_step_names bindE_def condition1_def
        condition2_def filterE_total[OF c])
qed

text \<open>
  C2, as stated, fails: \<^verbatim>\<open>'inc'\<close> keeps the items with \<^verbatim>\<open>x.begin < begin and end <
  x.end\<close>, both strictly, and the item \<open>[2, 5)\<close> does not begin before the window
  \<open>[2, 3)\<close>: the query returns no item.
\<close>

theorem range_query_inc_counterexample:
  "TodoList_getitem no_parse [interval ''a'' 1 3, interval ''b'' 2 5, interval ''c'' 6 8]
     (Slice (PyArrow 2) (PyArrow 3) (PyStr ''inc'')) = Inr (Items []) \<and>
   Items [] \<noteq> Items [interval ''b'' 2 5]"
  by (simp add: TodoList_getitem_def TodoList_range_def check_step_names bindE_def
      condition1_def condition2_def condition_inc_def andE_def Todo_begin_def Todo_end_def
      interval_def)

text \<open>
  C2, amended. The items are Todos whose \<^verbatim>\<open>_begin\<close> and \<^verbatim>\<open>end\<close> attributes hold
  instants. For a range query (a slice with a bound that is not an integer): an absent
  mode behaves as \<^verbatim>\<open>'both'\<close>; a mode token outside the five names raises ValueError;
  when no item begins exactly at \<open>start\<close>, mode \<^verbatim>\<open>'begin'\<close> returns exactly the items
  whose begin is within \<open>[start, stop)\<close>; for the items \<open>[1, 3)\<close>, \<open>[2, 5)\<close>, \<open>[6, 8)\<close>
  the window \<open>[0, 4)\<close> returns the first two with \<^verbatim>\<open>'any'\<close> and the first with
  \<^verbatim>\<open>'both'\<close>, and with \<^verbatim>\<open>'inc'\<close> the window \<open>[2, 3)\<close> returns nothing and the window
  \<open>[3, 4)\<close> the second item only.
\<close>

theorem range_query_modes:
  "(\<not> (int_or_none start \<and> int_or_none stop) \<longrightarrow>
      TodoList_getitem ag xs (Slice start stop PyNone)
        = TodoList_getitem ag xs (Slice start stop (PyStr ''both''))) \<and>
   (s \<notin> set step_names \<longrightarrow>
      TodoList_getitem ag xs (Slice start stop (PyStr s)) = Inl ValueError) \<and>
   ((\<forall>x \<in> set xs. \<exists>v. td_begin x = Attr (Some v) \<and> v \<noteq> a) \<longrightarrow>
      TodoList_getitem ag xs (Slice (PyArrow a) (PyArrow b) (PyStr ''begin''))
        = Inr (Items (filter (begins_within a b) xs))) \<and>
   TodoList_getitem ag [interval ''a'' 1 3, interval ''b'' 2 5, interval ''c'' 6 8]
     (Slice (PyArrow 0) (PyArrow 4) (PyStr ''any''))
     = Inr (Items [interval ''a'' 1 3, interval ''b'' 2 5]) \<and>
   TodoList_getitem ag [interval ''a'' 1 3, interval ''b'' 2 5, interval ''c'' 6 8]
     (Slice (PyArrow 0) (PyArrow 4) (PyStr ''both'')) = Inr (Items [interval ''a'' 1 3]) \<and>
   TodoList_getitem ag [interval ''a'' 1 3, interval ''b'' 2 5, interval ''c'' 6 8]
     (Slice (PyArrow 2) (PyArrow 3) (PyStr ''inc'')) = Inr (Items []) \<and>
   TodoList_getitem ag [interval ''a'' 1 3, interval ''b'' 2 5, interval ''c'' 6 8]
     (Slice (PyArrow 3) (PyArrow 4) (PyStr ''inc'')) = Inr (Items [interval ''b'' 2 5])"
proof (intro conjI impI)
  assume "\<not> (int_or_none start \<and> int_or_none stop)"
  then show "TodoList_getitem ag xs (Slice start stop PyNone)
        = TodoList_getitem ag xs (Slice start stop (PyStr ''both''))"
    by (auto simp: TodoList_getitem_def TodoList_range_def check_step_names)
next
  assume "s \<notin> set step_names"
  then show "TodoList_getitem ag xs (Slice start stop (PyStr s)) = Inl ValueError"
    by (simp add: TodoList_getitem_def TodoList_range_def check_step_def bindE_def)
next
  assume "\<forall>x \<in> set xs. \<exists>v. td_begin x = Attr (Some v) \<and> v \<noteq> a"
  then show "TodoList_getitem ag xs (Slice (PyArrow a) (PyArrow b) (PyStr ''begin''))
        = Inr (Items (filter (begins_within a b) xs))"
    by (simp add: TodoList_getitem_def range_begin_mode bindE_def)
next
  show "TodoList_getitem ag [interval ''a'' 1 3, interval ''b'' 2 5, interval ''c'' 6 8]
     (Slice (PyArrow 0) (PyArrow 4) (PyStr ''any''))
     = Inr (Items [interval ''a'' 1 3, interval ''b'' 2 5])"
    by (simp add: TodoList_getitem_def TodoList_range_def check_step_names bindE_def
        condition1_def condition2_def condition_begin1_def condition_end1_def
        condition_begin2_def condition_end2_def condition0_def call_def andE_def orE_def
        arrow_gt_def Todo_begin_def Todo_end_def interval_def)
next
  show "TodoList_getitem ag [interval ''a'' 1 3, interval ''b'' 2 5, interval ''c'' 6 8]
     (Slice (PyArrow 0) (PyArrow 4) (PyStr ''both'')) = Inr (Items [interval ''a'' 1 3])"
    by (simp add: TodoList_getitem_def TodoList_range_def check_step_names bindE_def
        condition1_def condition2_def condition_begin1_def condition_end1_def
        condition_begin2_def condition_end2_def condition0_def call_def andE_def orE_def
        arrow_gt_def Todo_begin_def Todo_end_def interval_def)
next
  show "TodoList_getitem ag [interval ''a'' 1 3, interval ''b'' 2 5, interval ''c'' 6 8]
     (Slice (PyArrow 2) (PyArrow 3) (PyStr ''inc'')) = Inr (Items [])"
    by (simp add: TodoList_getitem_def TodoList_range_def check_step_names bindE_def
        condition1_def condition2_def condition_inc_def andE_def Todo_begin_def Todo_end_def
        interval_def)
next
  show "TodoList_getitem ag [interval ''a'' 1 3, interval ''b'' 2 5, interval ''c'' 6 8]
     (Slice (PyArrow 3) (PyArrow 4) (PyStr ''inc'')) = Inr (Items [interval ''b'' 2 5])"
    by (simp add: TodoList_getitem_def TodoList_range_def check_step_names bindE_def
        condition1_def condition2_def condition_inc_def andE_def Todo_begin_def Todo_end_def
        interval_def)
qed

theorem range_query_modes_witness:
  "TodoList_getitem no_parse [interval ''a'' 1 3, interval ''b'' 2 5, interval ''c'' 6 8]
     (Slice (PyArrow 0) (PyArrow 4) PyNone) = Inr (Items [interval ''a'' 1 3]) \<and>
   TodoList_getitem no_parse [interval ''a'' 1 3, interval ''b'' 2 5, interval ''c'' 6 8]
     (Slice (PyArrow 0) (PyArrow 4) (PyStr ''between'')) = Inl ValueError \<and>
   TodoList_getitem no_parse [interval ''a'' 1 3, interval ''b'' 2 5, interval ''c'' 6 8]
     (Slice (PyArrow 0) (PyArrow 4) (PyStr ''begin''))
     = Inr (Items [interval ''a'' 1 3, interval ''b'' 2 5])"
  using range_query_modes[of "PyArrow 0" "PyArrow 4" no_parse
      "[interval ''a'' 1 3, interval ''b'' 2 5, interval ''c'' 6 8]" "''between''" 0 4]
  by (simp add: step_names_def begins_within_def interval_def)

subsection \<open>Queries on a list that holds a Todo as the constructor leaves it\<close>

lemma Todo_init_no_begin:
  "Todo_init ag g now name due duration uid description priority categories created
     percent completed location h = Inr (t, h') \<Longrightarrow> td_begin t = Missing"
  by (auto simp: Todo_init_def Todo_set_percent_def Let_def alloc_def
      split: sum.splits outcome.splits if_splits prod.splits)

text \<open>
  A condition that raises nothing but AttributeError, and a condition that raises it on
  the Todo \<open>t\<close>. Both are kept by \<^verbatim>\<open>and\<close> and \<^verbatim>\<open>or\<close>; a filter by such a condition
  over a list that holds \<open>t\<close> raises AttributeError, at \<open>t\<close> or before it.
\<close>

definition attr_only :: "condition \<Rightarrow> bool" where
  "attr_only c = (\<forall>x. c x = Inl AttributeError \<or> (\<exists>b. c x = Inr b))"

definition raises_at :: "todo \<Rightarrow> condition \<Rightarrow> bool" where
  "raises_at t c = (c t = Inl AttributeError)"

lemma filterE_raises:
  assumes "attr_only c" and "raises_at t c" and "t \<in> set xs"
  shows "filterE c xs = Inl AttributeError"
  using assms(3)
proof (induction xs)
  case Nil
  then show ?case by simp
next
  case (Cons x xs)
  from assms(1) consider "c x = Inl AttributeError" | b where "c x = Inr b"
    unfolding attr_only_def by blast
  then show ?case
  proof cases
    case 1
    then show ?thesis by (simp add: bindE_def)
  next
    case 2
    show ?thesis
    proof (cases "t = x")
      case True
      with assms(2) 2 show ?thesis by (simp add: raises_at_def)
    next
      case False
      with Cons have "filterE c xs = Inl AttributeError" by simp
      with 2 show ?thesis by (simp add: bindE_def)
    qed
  qed
qed

lemma getattr_cases: "getattr a = Inl AttributeError \<or> (\<exists>v. getattr a = Inr v)"
  by (cases a) auto

lemma arrow_lt_left: "\<exists>r. arrow_lt (Some a) v = Inr r"
  by (cases v) auto

lemma arrow_lt_right: "\<exists>r. arrow_lt v (Some a) = Inr r"
  by (cases v) auto

lemma arrow_le_left: "\<exists>r. arrow_le (Some a) v = Inr r"
  by (cases v) auto

lemma arrow_le_right: "\<exists>r. arrow_le v (Some a) = Inr r"
  by (cases v) auto

lemma attr_only_read:
  assumes "\<And>v. \<exists>r. cmp v = Inr r"
  shows "attr_only (\<lambda>x. bindE (getattr (f x)) cmp)"
  unfolding attr_only_def
proof
  fix x
  from getattr_cases[of "f x"] assms
  show "bindE (getattr (f x)) cmp = Inl AttributeError \<or>
        (\<exists>b. bindE (getattr (f x)) cmp = Inr b)"
    by (auto simp: bindE_def)
qed

lemma attr_only_andE:
  assumes "attr_only c" and "attr_only d"
  shows "attr_only (andE c d)"
  unfolding attr_only_def
proof
  fix x
  from assms(1) consider "c x = Inl AttributeError" | b where "c x = Inr b"
    unfolding attr_only_def by blast
  then show "andE c d x = Inl AttributeError \<or> (\<exists>b. andE c d x = Inr b)"
  proof cases
    case 1
    then show ?thesis by (simp add: andE_def bindE_def)
  next
    case 2
    with assms(2) show ?thesis by (auto simp: andE_def bindE_def attr_only_def)
  qed
qed

lemma attr_only_orE:
  assumes "attr_only c" and "attr_only d"
  shows "attr_only (orE c d)"
  unfolding attr_only_def
proof
  fix x
  from assms(1) consider "c x = Inl AttributeError" | b where "c x = Inr b"
    unfolding attr_only_def by blast
  then show "orE c d x = Inl AttributeError \<or> (\<exists>b. orE c d x = Inr b)"
  proof cases
    case 1
    then show ?thesis by (simp add: orE_def bindE_def)
  next
    case 2
    with assms(2) show ?thesis by (auto simp: orE_def bindE_def attr_only_def)
  qed
qed

lemma attr_only_condition0: "attr_only condition0"
  by (auto simp: attr_only_def condition0_def)

lemma attr_only_begin1: "attr_only (condition_begin1 b)"
  unfolding condition_begin1_def Todo_begin_def arrow_gt_def
  by (intro attr_only_andE attr_only_condition0 attr_only_read arrow_lt_left)

lemma attr_only_end1: "attr_only (condition_end1 b)"
  unfolding condition_end1_def Todo_end_def arrow_gt_def
  by (intro attr_only_andE attr_only_condition0 attr_only_read arrow_lt_left)

lemma attr_only_begin2: "attr_only c \<Longrightarrow> attr_only (condition_begin2 (Some c) e)"
  unfolding condition_begin2_def Todo_begin_def call_def
  by (simp add: attr_only_andE attr_only_read arrow_lt_right)

lemma attr_only_end2: "attr_only c \<Longrightarrow> attr_only (condition_end2 (Some c) e)"
  unfolding condition_end2_def Todo_end_def call_def
  by (simp add: attr_only_andE attr_only_read arrow_lt_right)

lemma attr_only_inc: "attr_only (condition_inc b e)"
  unfolding condition_inc_def Todo_begin_def Todo_end_def
  by (intro attr_only_andE attr_only_read arrow_lt_left arrow_lt_right)

lemma attr_only_occurs_at: "attr_only (occurs_at i)"
  unfolding occurs_at_def Todo_begin_def Todo_end_def
  by (intro attr_only_andE attr_only_read arrow_le_left arrow_le_right)

lemma raises_at_andE: "raises_at t c \<Longrightarrow> raises_at t (andE c d)"
  by (simp add: raises_at_def andE_def bindE_def)

lemma raises_at_orE: "raises_at t c \<Longrightarrow> raises_at t (orE c d)"
  by (simp add: raises_at_def orE_def bindE_def)

lemma raises_at_begin2: "raises_at t c \<Longrightarrow> raises_at t (condition_begin2 (Some c) e)"
  by (simp add: raises_at_def condition_begin2_def call_def andE_def bindE_def)

lemma raises_at_no_begin:
  assumes "td_begin t = Missing"
  shows "raises_at t (condition_begin1 b)"
    and "raises_at t (condition_begin2 (Some condition0) e)"
    and "raises_at t (condition_inc b e)"
    and "raises_at t (occurs_at i)"
  using assms
  by (simp_all add: raises_at_def condition_begin1_def condition_begin2_def
      condition_inc_def occurs_at_def condition0_def call_def andE_def bindE_def
      Todo_begin_def)

lemmas attr_only_rules =
  attr_only_condition0 attr_only_begin1 attr_only_end1 attr_only_begin2 attr_only_end2
  attr_only_andE attr_only_orE attr_only_inc attr_only_occurs_at

lemmas raises_at_rules = raises_at_andE raises_at_orE raises_at_begin2

lemma range_no_begin:
  assumes t: "t \<in> set xs" and nb: "td_begin t = Missing"
    and st: "step \<in> {''begin'', ''any'', ''both''}"
    and b: "get_arrow ag start = Inr b" and e: "get_arrow ag stop = Inr e"
    and bound: "b \<noteq> None \<or> e \<noteq> None"
  shows "TodoList_range ag xs start stop (PyStr step) = Inl AttributeError"
proof -
  note r = raises_at_no_begin[OF nb]
  have f: "filterE c xs = Inl AttributeError" if "attr_only c" "raises_at t c" for c
    using that t by (rule filterE_raises)
  from st consider "step = ''begin''" | "step = ''any''" | "step = ''both''" by blast
  then show ?thesis
  proof cases
    case 1
    show ?thesis
    proof (cases b)
      case None
      with bound obtain ev where "e = Some ev" by auto
      with None 1 b e show ?thesis
        by (simp add: TodoList_range_def check_step_names bindE_def condition1_def
            condition2_def f attr_only_rules raises_at_rules r)
    next
      case (Some bv)
      with 1 b e show ?thesis
        by (cases e)
          (simp_all add: TodoList_range_def check_step_names bindE_def condition1_def
            condition2_def f attr_only_rules raises_at_rules r)
    qed
  next
    case 2
    show ?thesis
    proof (cases b)
      case None
      with bound obtain ev where "e = Some ev" by auto
      with None 2 b e show ?thesis
        by (simp add: TodoList_range_def check_step_names bindE_def condition1_def
            condition2_def f attr_only_rules raises_at_rules r)
    next
      case (Some bv)
      with 2 b e show ?thesis
        by (cases e)
          (simp_all add: TodoList_range_def check_step_names bindE_def condition1_def
            condition2_def f attr_only_rules raises_at_rules r)
    qed
  next
    case 3
    show ?thesis
    proof (cases b)
      case None
      with bound obtain ev where "e = Some ev" by auto
      with None 3 b e show ?thesis
        by (simp add: TodoList_range_def check_step_names bindE_def condition1_def
            condition2_def f attr_only_rules raises_at_rules r)
    next
      case (Some bv)
      with 3 b e show ?thesis
        by (cases e)
          (simp_all add: TodoList_range_def check_step_names bindE_def condition1_def
            condition2_def f attr_only_rules raises_at_rules r)
    qed
  qed
qed

lemma range_inc_no_begin:
  assumes t: "t \<in> set xs" and nb: "td_begin t = Missing"
    and b: "get_arrow ag start = Inr (Some b)" and e: "get_arrow ag stop = Inr (Some e)"
  shows "TodoList_range ag xs start stop (PyStr ''inc'') = Inl AttributeError"
proof -
  have "filterE (condition_inc b e) xs = Inl AttributeError"
    using attr_only_inc raises_at_no_begin(3)[OF nb] t by (rule filterE_raises)
  then show ?thesis
    using b e
    by (simp add: TodoList_range_def check_step_names bindE_def condition1_def
        condition2_def)
qed

lemma get_arrow_of_arrow: "get_arrow ag (of_arrow v) = Inr v"
  by (cases v) simp_all

text \<open>
  C3, as stated, fails for \<^verbatim>\<open>'inc'\<close> with one bound: with only an upper bound the
  query returns the empty list before any item is looked at.
\<close>

theorem inc_one_bound_counterexample:
  "Todo_init timestamp_get ''g'' 7 None PyNone Dur_none None None None None PyNone
     (PyInt 100) PyNone None empty_store
   = Inr (todo_100, \<lparr>cells = (\<lambda>a. None)(0 \<mapsto> ContainerCell (Container ''VTODO'' [])),
                     next_addr = Suc 0\<rparr>) \<and>
   TodoList_getitem timestamp_get [todo_100] (Slice PyNone (PyArrow 5) (PyStr ''inc''))
     = Inr (Items [])"
  by (simp add: todo_100_init TodoList_getitem_def TodoList_range_def check_step_names
      bindE_def condition1_def condition2_def)

text \<open>
  C3, amended. The constructor assigns no \<^verbatim>\<open>_begin\<close>. On every TodoList that holds a
  Todo \<open>t\<close> without \<^verbatim>\<open>_begin\<close>, a range query with at least one bound in mode
  \<^verbatim>\<open>'begin'\<close>, \<^verbatim>\<open>'any'\<close> or \<^verbatim>\<open>'both'\<close>, a range query with both bounds in mode
  \<^verbatim>\<open>'inc'\<close>, \<^verbatim>\<open>at\<close>, \<^verbatim>\<open>now\<close> and \<^verbatim>\<open>today\<close> raise AttributeError, and so does
  \<^verbatim>\<open>concurrent\<close> of a Todo whose begin or end is an instant; \<^verbatim>\<open>concurrent(t)\<close> raises
  AttributeError on any list.
\<close>

theorem begin_queries_raise:
  "(Todo_init ag g now name due duration uid description priority categories created
      percent completed location h = Inr (t, h') \<longrightarrow> td_begin t = Missing) \<and>
   (t \<in> set xs \<and> td_begin t = Missing \<longrightarrow>
      (step \<in> {''begin'', ''any'', ''both''} \<and> get_arrow ag start = Inr b \<and>
       get_arrow ag stop = Inr e \<and> (b \<noteq> None \<or> e \<noteq> None) \<longrightarrow>
         TodoList_getitem ag xs (Slice start stop (PyStr step)) = Inl AttributeError) \<and>
      (get_arrow ag start = Inr (Some bv) \<and> get_arrow ag stop = Inr (Some ev) \<longrightarrow>
         TodoList_getitem ag xs (Slice start stop (PyStr ''inc'')) = Inl AttributeError) \<and>
      TodoList_at xs i = Inl AttributeError \<and>
      TodoList_now now xs = Inl AttributeError \<and>
      TodoList_today ag now xs = Inl AttributeError \<and>
      (Todo_begin other = Inr b \<and> Todo_end other = Inr e \<and> (b \<noteq> None \<or> e \<noteq> None) \<longrightarrow>
         TodoList_concurrent ag xs other = Inl AttributeError)) \<and>
   (td_begin t = Missing \<longrightarrow> TodoList_concurrent ag xs t = Inl AttributeError)"
proof (intro conjI impI)
  assume "Todo_init ag g now name due duration uid description priority categories created
      percent completed location h = Inr (t, h')"
  then show "td_begin t = Missing" by (rule Todo_init_no_begin)
next
  assume a: "t \<in> set xs \<and> td_begin t = Missing"
  then have t: "t \<in> set xs" and nb: "td_begin t = Missing" by auto
  show "TodoList_at xs i = Inl AttributeError"
    unfolding TodoList_at_def
    using attr_only_occurs_at raises_at_no_begin(4)[OF nb] t by (rule filterE_raises)
  show "TodoList_now now xs = Inl AttributeError"
    unfolding TodoList_now_def
    using attr_only_occurs_at raises_at_no_begin(4)[OF nb] t by (rule filterE_raises)
  have "TodoList_range ag xs (PyArrow (fst (day_span now))) (PyArrow (snd (day_span now)))
          (PyStr ''both'') = Inl AttributeError"
    by (rule range_no_begin[OF t nb]) auto
  then show "TodoList_today ag now xs = Inl AttributeError"
    by (simp add: TodoList_today_def TodoList_getitem_def bindE_def split_beta)
  {
    assume "step \<in> {''begin'', ''any'', ''both''} \<and> get_arrow ag start = Inr b \<and>
       get_arrow ag stop = Inr e \<and> (b \<noteq> None \<or> e \<noteq> None)"
    then have "TodoList_range ag xs start stop (PyStr step) = Inl AttributeError"
      using range_no_begin[OF t nb] by blast
    then show "TodoList_getitem ag xs (Slice start stop (PyStr step)) = Inl AttributeError"
      by (simp add: TodoList_getitem_def bindE_def)
  }
  {
    assume "get_arrow ag start = Inr (Some bv) \<and> get_arrow ag stop = Inr (Some ev)"
    then have "TodoList_range ag xs start stop (PyStr ''inc'') = Inl AttributeError"
      using range_inc_no_begin[OF t nb] by blast
    then show "TodoList_getitem ag xs (Slice start stop (PyStr ''inc'')) = Inl AttributeError"
      by (simp add: TodoList_getitem_def bindE_def)
  }
  {
    assume o: "Todo_begin other = Inr b \<and> Todo_end other = Inr e \<and> (b \<noteq> None \<or> e \<noteq> None)"
    have "TodoList_range ag xs (of_arrow b) (of_arrow e) (PyStr ''any'') = Inl AttributeError"
      using o by (intro range_no_begin[OF t nb]) (auto simp: get_arrow_of_arrow)
    with o show "TodoList_concurrent ag xs other = Inl AttributeError"
      by (simp add: TodoList_concurrent_def bindE_def)
  }
next
  assume "td_begin t = Missing"
  then show "TodoList_concurrent ag xs t = Inl AttributeError"
    by (simp add: TodoList_concurrent_def Todo_begin_def bindE_def)
qed

theorem begin_queries_raise_witness:
  "td_begin todo_100 = Missing \<and>
   TodoList_getitem timestamp_get
     [(interval ''a'' 1 3)\<lparr>td_begin := Attr None\<rparr>, todo_100, interval ''b'' 2 5]
     (Slice (PyArrow 3) PyNone (PyStr ''begin'')) = Inl AttributeError \<and>
   TodoList_getitem timestamp_get
     [(interval ''a'' 1 3)\<lparr>td_begin := Attr None\<rparr>, todo_100, interval ''b'' 2 5]
     (Slice PyNone (PyArrow 9) (PyStr ''any'')) = Inl AttributeError \<and>
   TodoList_getitem timestamp_get
     [(interval ''a'' 1 3)\<lparr>td_begin := Attr None\<rparr>, todo_100, interval ''b'' 2 5]
     (Slice (PyArrow 3) (PyArrow 9) (PyStr ''both'')) = Inl AttributeError \<and>
   TodoList_getitem timestamp_get
     [(interval ''a'' 1 3)\<lparr>td_begin := Attr None\<rparr>, todo_100, interval ''b'' 2 5]
     (Slice (PyArrow 3) (PyArrow 9) (PyStr ''inc'')) = Inl AttributeError \<and>
   TodoList_at [(interval ''a'' 1 3)\<lparr>td_begin := Attr None\<rparr>, todo_100, interval ''b'' 2 5] 5
     = Inl AttributeError \<and>
   TodoList_now 7 [(interval ''a'' 1 3)\<lparr>td_begin := Attr None\<rparr>, todo_100, interval ''b'' 2 5]
     = Inl AttributeError \<and>
   TodoList_today timestamp_get 7
     [(interval ''a'' 1 3)\<lparr>td_begin := Attr None\<rparr>, todo_100, interval ''b'' 2 5]
     = Inl AttributeError \<and>
   TodoList_concurrent timestamp_get
     [(interval ''a'' 1 3)\<lparr>td_begin := Attr None\<rparr>, todo_100, interval ''b'' 2 5]
     (interval ''b'' 2 5) = Inl AttributeError \<and>
   TodoList_concurrent timestamp_get
     [(interval ''a'' 1 3)\<lparr>td_begin := Attr None\<rparr>, todo_100, interval ''b'' 2 5]
     todo_100 = Inl AttributeError"
proof -
  note i = todo_100_init
  have m: "td_begin todo_100 = Missing" by (simp add: todo_100_def)
  have o: "Todo_begin (interval ''b'' 2 5) = Inr (Some 2)"
    "Todo_end (interval ''b'' 2 5) = Inr (Some 5)"
    by (simp_all add: Todo_begin_def Todo_end_def interval_def)
  note w = begin_queries_raise[of timestamp_get "''g''" 7 None PyNone Dur_none None None None
      None PyNone "PyInt 100" PyNone None empty_store todo_100
      "\<lparr>cells = (\<lambda>a. None)(0 \<mapsto> ContainerCell (Container ''VTODO'' [])), next_addr = Suc 0\<rparr>"
      "[(interval ''a'' 1 3)\<lparr>td_begin := Attr None\<rparr>, todo_100, interval ''b'' 2 5]"]
  show ?thesis
    using i m o
      w[of "''begin''" "PyArrow 3" "Some 3" PyNone None 3 9 5 "interval ''b'' 2 5"]
      w[of "''any''" PyNone None "PyArrow 9" "Some 9" 3 9 5 "interval ''b'' 2 5"]
      w[of "''both''" "PyArrow 3" "Some 3" "PyArrow 9" "Some 9" 3 9 5 "interval ''b'' 2 5"]
      w[of "''any''" "PyArrow 3" "Some 2" "PyArrow 9" "Some 5" 3 9 5 "interval ''b'' 2 5"]
    by simp
qed

section \<open>Calendar (icalendar.py)\<close>

text \<open>
  The values the constructor's parameters \<^verbatim>\<open>imports\<close>, \<^verbatim>\<open>events\<close> and \<^verbatim>\<open>todos\<close> are
  given: Python checks none of them against the declared type, so each parameter, and
  each of the fields \<^verbatim>\<open>_events\<close> and \<^verbatim>\<open>_todos\<close>, holds any of these.
\<close>

datatype pyobj =
    ObjNone
  | ObjStr string
  | ObjLines "string list"
  | ObjEventList "event list"
  | ObjTodoList "todo list"

typedecl tzinfo

record calendar =
  cal_timezones :: "(string \<times> tzinfo) list"
  cal_events :: pyobj
  cal_todos :: pyobj
  cal_unused :: container
  cal_scale :: "string option"
  cal_method :: "string option"
  cal_creator :: "string option attr"

text \<open>
  The functions of the repository that the Calendar calls and that are not among the
  source files are parameters: the two parsers of parse.py, \<^verbatim>\<open>Component._populate\<close>
  (component.py) with the Calendar's extractors, \<^verbatim>\<open>EventList.__add__\<close> (eventlist.py),
  and \<^verbatim>\<open>+\<close> on operands other than two EventLists or two TodoLists.
\<close>

record absent =
  string_to_container :: "string \<Rightarrow> error + container list"
  lines_to_container :: "pyobj \<Rightarrow> error + container list"
  populate :: "calendar \<Rightarrow> container \<Rightarrow> error + calendar"
  eventlist_add :: "event list \<Rightarrow> event list \<Rightarrow> error + event list"
  other_add :: "pyobj \<Rightarrow> pyobj \<Rightarrow> error + pyobj"

text \<open>The object before the \<^verbatim>\<open>if imports is not None\<close>.\<close>

definition blank_calendar :: calendar where
  "blank_calendar =
     \<lparr>cal_timezones = [], cal_events = ObjEventList [], cal_todos = ObjTodoList [],
      cal_unused = Container ''VCALENDAR'' [], cal_scale = None, cal_method = None,
      cal_creator = Missing\<rparr>"

text \<open>
  The constructor, \<^verbatim>\<open>__init__(self, imports=None, events=None, todos=None,
  creator=None)\<close>. With \<^verbatim>\<open>imports\<close> given, the other arguments are not used.
\<close>

definition Calendar_init ::
  "absent \<Rightarrow> pyobj \<Rightarrow> pyobj \<Rightarrow> pyobj \<Rightarrow> string option \<Rightarrow> error + calendar" where
  "Calendar_init P imports events todos creator =
     (let events1 = (if events = ObjNone then ObjEventList [] else events);
          todos1 = (if todos = ObjNone then ObjTodoList [] else todos)
      in if imports \<noteq> ObjNone then
           bindE (case imports of
                    ObjStr s \<Rightarrow> string_to_container P s
                  | _ \<Rightarrow> lines_to_container P imports)
             (\<lambda>container.
                if length container \<noteq> 1 then Inl NotImplementedError
                else populate P blank_calendar (container ! 0))
         else Inr (blank_calendar\<lparr>cal_events := events1, cal_todos := todos1,
                                  cal_creator := Attr creator\<rparr>))"

definition Calendar_events :: "calendar \<Rightarrow> pyobj" where
  "Calendar_events c = cal_events c"

definition Calendar_todos :: "calendar \<Rightarrow> pyobj" where
  "Calendar_todos c = cal_todos c"

definition py_add :: "absent \<Rightarrow> pyobj \<Rightarrow> pyobj \<Rightarrow> error + pyobj" where
  "py_add P a b =
     (case (a, b) of
        (ObjEventList xs, ObjEventList ys) \<Rightarrow>
          bindE (eventlist_add P xs ys) (\<lambda>r. Inr (ObjEventList r))
      | (ObjTodoList xs, ObjTodoList ys) \<Rightarrow>
          bindE (TodoList_add xs ys) (\<lambda>r. Inr (ObjTodoList r))
      | _ \<Rightarrow> other_add P a b)"

text \<open>
  \<^verbatim>\<open>__add__\<close> ends with \<^verbatim>\<open>return Calendar(events,todos)\<close>: the arguments are
  positional, so \<^verbatim>\<open>events\<close> is bound to the parameter \<^verbatim>\<open>imports\<close> and \<^verbatim>\<open>todos\<close> to the
  parameter \<^verbatim>\<open>events\<close>.
\<close>

definition Calendar_add :: "absent \<Rightarrow> calendar \<Rightarrow> calendar \<Rightarrow> error + calendar" where
  "Calendar_add P self other =
     bindE (py_add P (Calendar_events self) (Calendar_events other)) (\<lambda>events.
     bindE (py_add P (Calendar_todos self) (Calendar_todos other)) (\<lambda>todos.
       Calendar_init P events todos ObjNone None))"


section \<open>Properties of Calendar\<close>

text \<open>A parser that finds no calendar in anything, for the example.\<close>

definition finds_nothing :: absent where
  "finds_nothing =
     \<lparr>string_to_container = (\<lambda>s. Inr []), lines_to_container = (\<lambda>v. Inr []),
      populate = (\<lambda>c k. Inr c), eventlist_add = (\<lambda>xs ys. Inr (xs @ ys)),
      other_add = (\<lambda>a b. Inl TypeError)\<rparr>"

text \<open>
  C5. The claim has \<open>c1 + c2\<close> be the Calendar of the two merged lists. The code hands
  the merged event list to the constructor as \<^verbatim>\<open>imports\<close> and the merged todo list as
  \<^verbatim>\<open>events\<close>: the constructor takes the import branch, gives the event list to the line
  parser as if it were lines of text, and uses neither merged list as a list of the
  Calendar. What the claim describes is what the constructor returns when the two lists
  are bound to \<^verbatim>\<open>events\<close> and \<^verbatim>\<open>todos\<close> (second equation).
\<close>

theorem Calendar_add_imports_the_events:
  "(Calendar_events c1 = ObjEventList a \<and> Calendar_events c2 = ObjEventList b \<and>
    Calendar_todos c1 = ObjTodoList x \<and> Calendar_todos c2 = ObjTodoList y \<and>
    eventlist_add P a b = Inr evs \<and> TodoList_add x y = Inr tds \<longrightarrow>
      Calendar_add P c1 c2 =
        bindE (lines_to_container P (ObjEventList evs))
          (\<lambda>container.
             if length container \<noteq> 1 then Inl NotImplementedError
             else populate P blank_calendar (container ! 0))) \<and>
   Calendar_init P ObjNone (ObjEventList evs) (ObjTodoList tds) None =
     Inr (blank_calendar\<lparr>cal_events := ObjEventList evs, cal_todos := ObjTodoList tds,
                          cal_creator := Attr None\<rparr>)"
  by (auto simp: Calendar_add_def Calendar_init_def py_add_def bindE_def Let_def)

theorem Calendar_add_imports_the_events_witness:
  "Calendar_init finds_nothing ObjNone ObjNone ObjNone None
     = Inr (blank_calendar\<lparr>cal_creator := Attr None\<rparr>) \<and>
   Calendar_add finds_nothing (blank_calendar\<lparr>cal_creator := Attr None\<rparr>)
      (blank_calendar\<lparr>cal_creator := Attr None\<rparr>) = Inl NotImplementedError"
  using Calendar_add_imports_the_events[of "blank_calendar\<lparr>cal_creator := Attr None\<rparr>" "[]"
      "blank_calendar\<lparr>cal_creator := Attr None\<rparr>" "[]" "[]" "[]" finds_nothing "[]" "[]"]
  by (simp add: Calendar_init_def Calendar_events_def Calendar_todos_def blank_calendar_def
      finds_nothing_def TodoList_add_def TodoList_remove_duplicates_def bindE_def)


section \<open>Properties of clone\<close>

text \<open>A store with the list \<open>[''a'']\<close> at address 0 and a Todo's container at address 1.\<close>

definition list_store :: store where
  "list_store = \<lparr>cells = (\<lambda>a. None)(0 \<mapsto> ListCell [''a'']), next_addr = 1\<rparr>"

definition tagged_store :: store where
  "tagged_store =
     \<lparr>cells = (\<lambda>a. None)(0 \<mapsto> ListCell [''a''], 1 \<mapsto> ContainerCell (Container ''VTODO'' [])),
      next_addr = 2\<rparr>"

definition tagged_todo :: todo where
  "tagged_todo = todo_100\<lparr>td_categories := Some 0, td_unused := 1\<rparr>"

lemma tagged_todo_init:
  "Todo_init timestamp_get ''g'' 7 None PyNone Dur_none None None None (Some 0) PyNone
     (PyInt 100) PyNone None list_store = Inr (tagged_todo, tagged_store)"
  by (simp add: Todo_init_def Todo_set_percent_def timestamp_get_def list_store_def
      tagged_store_def tagged_todo_def alloc_def todo_100_def second_us_def Let_def)

text \<open>
  C10. The claim has no mutation of a clone change the original. \<^verbatim>\<open>Todo.clone\<close>
  replaces \<^verbatim>\<open>_unused\<close> by a copy and copies every other attribute as it is, so the
  clone holds the very list the original holds as \<^verbatim>\<open>categories\<close>: the clone equals the
  original (same uid), and appending a category to the clone's list changes what the
  original's \<^verbatim>\<open>categories\<close> reads.
\<close>

theorem clone_shares_categories:
  "cells h (td_unused t) = Some (ContainerCell k) \<and> td_categories t = Some a \<and>
   cells h a = Some (ListCell xs) \<and> a < next_addr h \<longrightarrow>
     (\<exists>c h1 h2. Todo_clone h t = Inr (c, h1) \<and> Todo_eq c t \<and>
        categories_append h1 c s = Inr h2 \<and>
        read_categories h t = Some xs \<and> read_categories h1 t = Some xs \<and>
        read_categories h2 t = Some (xs @ [s]))"
  by (auto simp: Todo_clone_def Container_clone_def alloc_def Todo_eq_def
      categories_append_def read_categories_def Let_def)

theorem clone_shares_categories_witness:
  "Todo_init timestamp_get ''g'' 7 None PyNone Dur_none None None None (Some 0) PyNone
     (PyInt 100) PyNone None list_store = Inr (tagged_todo, tagged_store) \<and>
   read_categories tagged_store tagged_todo = Some [''a''] \<and>
   (\<exists>c h1 h2. Todo_clone tagged_store tagged_todo = Inr (c, h1) \<and> Todo_eq c tagged_todo \<and>
      categories_append h1 c ''x'' = Inr h2 \<and>
      read_categories h2 tagged_todo = Some [''a'', ''x''])"
  using tagged_todo_init
    clone_shares_categories[of tagged_store tagged_todo "Container ''VTODO'' []" 0 "[''a'']"
      "''x''"]
  by (auto simp: tagged_store_def tagged_todo_def read_categories_def)

end
